theory Spec2Isabelle
  imports Main "HOL-Library.Sublist"
begin

section \<open>Common values\<close>

text \<open>A Go \<open>error\<close> value. \<open>Error m\<close> is an error whose message is \<open>m\<close> (one made by
  \<open>errors.New\<close>, or one a library returned); \<open>Errorf f args\<close> is the value of
  \<open>fmt.Errorf(f, args...)\<close>, kept as its format and arguments. A \<open>nil\<close> error is \<open>None\<close>
  of type \<open>error option\<close>; a function returning \<open>(T, error)\<close> returns \<open>error + T\<close>, with
  \<open>Inl\<close> the error.\<close>

datatype error = Error string | Errorf string "fmt_arg list"
and fmt_arg = ArgString string | ArgInt int | ArgError error

text \<open>\<open>err.Error()\<close>. The message of an \<open>Errorf\<close> error is what \<open>fmt.Sprintf\<close> makes
  of its format and arguments; \<open>Sprintf\<close> is the library's and a parameter here.\<close>

fun Error_message :: "(string \<Rightarrow> fmt_arg list \<Rightarrow> string) \<Rightarrow> error \<Rightarrow> string" where
  "Error_message Sprintf (Error m) = m"
| "Error_message Sprintf (Errorf f args) = Sprintf f args"

text \<open>A Go call either returns or panics (a nil pointer dereference).\<close>

datatype 'a outcome = Panic | Returns 'a

section \<open>Go's \<open>strings\<close>, \<open>strconv\<close> and \<open>path/filepath\<close>, as far as the code calls them\<close>

text \<open>A Go string is a sequence of bytes: \<open>string\<close>, a list of 8-bit \<open>char\<close>.\<close>

abbreviation DQ :: char where "DQ \<equiv> CHR 0x22"

definition is_lower :: "char \<Rightarrow> bool" where
  "is_lower c = (97 \<le> (of_char c :: nat) \<and> (of_char c :: nat) \<le> 122)"

definition is_upper :: "char \<Rightarrow> bool" where
  "is_upper c = (65 \<le> (of_char c :: nat) \<and> (of_char c :: nat) \<le> 90)"

definition is_digit :: "char \<Rightarrow> bool" where
  "is_digit c = (48 \<le> (of_char c :: nat) \<and> (of_char c :: nat) \<le> 57)"

definition isASCII :: "string \<Rightarrow> bool" where
  "isASCII s = list_all (\<lambda>c. (of_char c :: nat) < 128) s"

definition HasPrefix :: "string \<Rightarrow> string \<Rightarrow> bool" where
  "HasPrefix s pre = prefix pre s"

fun Contains :: "string \<Rightarrow> string \<Rightarrow> bool" where
  "Contains [] substr = (substr = [])"
| "Contains (c # cs) substr = (prefix substr (c # cs) \<or> Contains cs substr)"

text \<open>\<open>strings.TrimLeft(s, cutset)\<close> and \<open>strings.TrimRight(s, cutset)\<close>; every cutset the
  code passes is ASCII, so the trimming is by bytes.\<close>

definition TrimLeft :: "string \<Rightarrow> string \<Rightarrow> string" where
  "TrimLeft s cutset = dropWhile (\<lambda>c. c \<in> set cutset) s"

definition TrimRight :: "string \<Rightarrow> string \<Rightarrow> string" where
  "TrimRight s cutset = rev (dropWhile (\<lambda>c. c \<in> set cutset) (rev s))"

definition TrimPrefix :: "string \<Rightarrow> string \<Rightarrow> string" where
  "TrimPrefix s pre = (if HasPrefix s pre then drop (length pre) s else s)"

text \<open>\<open>strings.Split(s, sep)\<close> for a separator of one byte: one part more than there are
  separators in \<open>s\<close>.\<close>

fun Split :: "string \<Rightarrow> char \<Rightarrow> string list" where
  "Split [] sep = [[]]"
| "Split (c # cs) sep =
     (if c = sep then [] # Split cs sep
      else (case Split cs sep of p # ps \<Rightarrow> (c # p) # ps | [] \<Rightarrow> [[c]]))"

fun Join :: "string list \<Rightarrow> string \<Rightarrow> string" where
  "Join [] sep = []"
| "Join [a] sep = a"
| "Join (a # b # elems) sep = a @ sep @ Join (b # elems) sep"

text \<open>\<open>strings.ReplaceAll(s, old, new)\<close> for an \<open>old\<close> of one byte.\<close>

fun ReplaceAll :: "string \<Rightarrow> char \<Rightarrow> string \<Rightarrow> string" where
  "ReplaceAll [] old new = []"
| "ReplaceAll (c # cs) old new =
     (if c = old then new @ ReplaceAll cs old new else c # ReplaceAll cs old new)"

text \<open>\<open>strings.ToUpper\<close>. On a string of ASCII bytes Go maps \<open>a..z\<close> to \<open>A..Z\<close> byte by
  byte (\<open>c -= 'a' - 'A'\<close>); any other string goes through \<open>strings.Map(unicode.ToUpper, s)\<close>,
  which rests on the Unicode tables: \<open>unicode_upper\<close>, a parameter.\<close>

definition ascii_upper :: "char \<Rightarrow> char" where
  "ascii_upper c = (if is_lower c then char_of ((of_char c :: nat) - 32) else c)"

definition ToUpper :: "(string \<Rightarrow> string) \<Rightarrow> string \<Rightarrow> string" where
  "ToUpper unicode_upper s = (if isASCII s then map ascii_upper s else unicode_upper s)"

text \<open>\<open>strings.Fields\<close>. On a string of ASCII bytes Go splits around runs of the six ASCII
  white-space bytes (tab, line feed, vertical tab, form feed, carriage return, space); any
  other string goes through \<open>strings.FieldsFunc(s, unicode.IsSpace)\<close>: \<open>unicode_fields\<close>, a
  parameter.\<close>

definition asciiSpace :: "char \<Rightarrow> bool" where
  "asciiSpace c = (c \<in> {CHR 0x09, CHR 0x0A, CHR 0x0B, CHR 0x0C, CHR 0x0D, CHR 0x20})"

fun ascii_fields :: "string \<Rightarrow> string \<Rightarrow> string list" where
  "ascii_fields cur [] = (if cur = [] then [] else [cur])"
| "ascii_fields cur (c # cs) =
     (if asciiSpace c then (if cur = [] then ascii_fields [] cs else cur # ascii_fields [] cs)
      else ascii_fields (cur @ [c]) cs)"

definition Fields :: "(string \<Rightarrow> string list) \<Rightarrow> string \<Rightarrow> string list" where
  "Fields unicode_fields s = (if isASCII s then ascii_fields [] s else unicode_fields s)"

text \<open>\<open>strconv.Itoa\<close>: the decimal digits, after a minus sign for a negative number.\<close>

fun decimal :: "nat \<Rightarrow> string" where
  "decimal n = (if n < 10 then [char_of (48 + n)] else decimal (n div 10) @ [char_of (48 + n mod 10)])"

declare decimal.simps [simp del]

definition Itoa :: "int \<Rightarrow> string" where
  "Itoa i = (if i < 0 then CHR ''-'' # decimal (nat (- i)) else decimal (nat i))"

text \<open>\<open>filepath.Ext\<close> and \<open>filepath.Base\<close> on a system whose path separator is \<open>/\<close>.
  \<open>Ext\<close> is the suffix from the last dot of the last element, empty when it has none;
  \<open>Base\<close> is the last element, after trailing separators are dropped.\<close>

fun Ext_scan :: "string \<Rightarrow> string \<Rightarrow> string" where
  "Ext_scan [] ext = []"
| "Ext_scan (c # front) ext =
     (if c = CHR ''/'' then []
      else if c = CHR ''.'' then c # ext
      else Ext_scan front (c # ext))"

definition Ext :: "string \<Rightarrow> string" where
  "Ext path = Ext_scan (rev path) []"

definition Base :: "string \<Rightarrow> string" where
  "Base path =
     (if path = [] then ''.''
      else (let path = TrimRight path ''/'';
                path = rev (takeWhile (\<lambda>c. c \<noteq> CHR ''/'') (rev path))
            in if path = [] then ''/'' else path))"

section \<open>plugin/db/pg: quoting identifiers\<close>

text \<open>\<open>ident = regexp.MustCompile(`(?i)^[a-z_][a-z0-9_$]*$`)\<close>, as the automaton that
  reads the bytes of the string. The pattern has no \<open>m\<close> flag, so \<open>^\<close> and \<open>$\<close> are the two
  ends of the text. Go's \<open>(?i)\<close> closes a character class under Unicode simple case folding:
  beside \<open>A..Z\<close>, the class \<open>[a-z]\<close> then holds the two characters outside ASCII that fold to an
  ASCII letter, U+017F (long s, the bytes C5 BF) and U+212A (Kelvin sign, the bytes E2 84 AA).
  The digits, \<open>_\<close> and \<open>$\<close> fold to nothing else, and a byte that is not part of a well-formed
  UTF-8 sequence matches no class.\<close>

datatype ident_state = AtStart | InIdent | AfterC5 | AfterE2 | AfterE2_84 | NoMatch

definition ident_first :: "char \<Rightarrow> bool" where
  "ident_first c = (is_lower c \<or> is_upper c \<or> c = CHR ''_'')"

definition ident_rest :: "char \<Rightarrow> bool" where
  "ident_rest c = (is_lower c \<or> is_upper c \<or> is_digit c \<or> c = CHR ''_'' \<or> c = CHR ''$'')"

fun ident_step :: "ident_state \<Rightarrow> char \<Rightarrow> ident_state" where
  "ident_step AtStart c =
     (if ident_first c then InIdent else if c = CHR 0xC5 then AfterC5
      else if c = CHR 0xE2 then AfterE2 else NoMatch)"
| "ident_step InIdent c =
     (if ident_rest c then InIdent else if c = CHR 0xC5 then AfterC5
      else if c = CHR 0xE2 then AfterE2 else NoMatch)"
| "ident_step AfterC5 c = (if c = CHR 0xBF then InIdent else NoMatch)"
| "ident_step AfterE2 c = (if c = CHR 0x84 then AfterE2_84 else NoMatch)"
| "ident_step AfterE2_84 c = (if c = CHR 0xAA then InIdent else NoMatch)"
| "ident_step NoMatch c = NoMatch"

definition ident_MatchString :: "string \<Rightarrow> bool" where
  "ident_MatchString s = (foldl ident_step AtStart s = InIdent)"

text \<open>\<open>quoteIdentifier\<close>. The map \<open>reserved\<close> of the package is not among the source
  files: it is a parameter, \<open>reserved k\<close> being the value \<open>reserved[k]\<close> (false for a key
  the map lacks).\<close>

definition quoteIdentifier ::
  "(string \<Rightarrow> bool) \<Rightarrow> (string \<Rightarrow> string) \<Rightarrow> string \<Rightarrow> string" where
  "quoteIdentifier reserved unicode_upper s =
     (let quote = False;
          quote = (if reserved (ToUpper unicode_upper s) then True else quote);
          quote = (if \<not> ident_MatchString s then True else quote)
      in if quote then [DQ] @ ReplaceAll s DQ [DQ, DQ] @ [DQ] else s)"


definition quoted_form :: "string \<Rightarrow> string" where
  "quoted_form s = [DQ] @ concat (map (\<lambda>c. if c = DQ then [DQ, DQ] else [c]) s) @ [DQ]"

section \<open>\<open>database/sql\<close> as the PostgreSQL driver uses it\<close>

text \<open>The driver talks to the server through \<open>database/sql\<close>. The model keeps the calls
  it makes, in order, and lets the server decide each answer from the calls made so far: a
  theorem that holds for every \<open>server\<close> holds whatever the database does.

  A handle (\<open>*sql.DB\<close>) is named by the connection string it was opened with. The driver has
  at most one transaction open, so the calls on \<open>*sql.Tx\<close> name no handle.\<close>

record pgDatabaseSchema =
  name :: string
  encoding :: string
  collate :: string

datatype sql_arg = ArgS string | ArgI int

datatype call =
    SqlOpen string
  | DbPing string
  | DbClose string
  | DbQuery string string
  | RowsClose
  | DbExec string string "sql_arg list"
  | DbBeginTx string
  | TxQuery string
  | TxExec string
  | TxCommit
  | TxRollback

text \<open>An answer: the call failed, it succeeded with nothing to read, or it produced rows.
  A row is given as what \<open>rows.Scan\<close> stores in the variables the code passes to it, or
  the error \<open>Scan\<close> returns, so that a row's conversion needs no model. A query reads rows of
  its own kind; an answer of another kind reads as a result with no row.\<close>

datatype reply =
    Failed error
  | Done
  | DatabaseRows "(error + pgDatabaseSchema) list"
  | OwnerRows "(error + string) list"
  | VersionRows "(error + int \<times> string) list"

type_synonym server = "call list \<Rightarrow> reply"

definition reply_error :: "reply \<Rightarrow> error option" where
  "reply_error r = (case r of Failed err \<Rightarrow> Some err | _ \<Rightarrow> None)"

text \<open>\<open>for rows.Next() { if err := rows.Scan(...); err != nil { return err }; ... }\<close>
  collecting the rows: the first row that fails to scan ends the loop with its error.\<close>

fun scan_all :: "(error + 'a) list \<Rightarrow> error + 'a list" where
  "scan_all [] = Inr []"
| "scan_all (Inl err # rows) = Inl err"
| "scan_all (Inr v # rows) = (case scan_all rows of Inl err \<Rightarrow> Inl err | Inr vs \<Rightarrow> Inr (v # vs))"

section \<open>plugin/db/pg: the driver\<close>

record TLSConfig =
  SslCA :: string
  SslCert :: string
  SslKey :: string

record ConnectionConfig =
  Host :: string
  Port :: string
  Username :: string
  Password :: string
  Database :: string
  TLSConfig :: TLSConfig
  ReadOnly :: bool
  StrictUseDb :: bool

text \<open>The \<open>Driver\<close> struct. \<open>db\<close> is the handle the driver holds: \<open>Open\<close> sets it before
  it returns the driver, and no method sets it to \<open>nil\<close>, so the methods below find it set.
  \<open>connectionCtx\<close> is only read for logging and is left out, as the logging is.
  \<open>calls\<close> is not a field of the struct: it is the list of the calls made to
  \<open>database/sql\<close> so far.\<close>

record Driver =
  pgInstanceDir :: string
  config :: ConnectionConfig
  db :: string
  baseDSN :: string
  databaseName :: string
  strictDatabase :: string
  calls :: "call list"

definition call_server :: "server \<Rightarrow> call \<Rightarrow> Driver \<Rightarrow> reply \<times> Driver" where
  "call_server srv c driver =
     (srv (calls driver @ [c]), driver\<lparr>calls := calls driver @ [c]\<rparr>)"

text \<open>Modelled from the spec: \<open>db.BytebaseDatabase\<close> is a constant of package
  \<open>plugin/db\<close>, which is not among the source files; the spec names the internal database
  \<open>bytebase\<close>, as \<open>createBytebaseDatabaseStmt\<close> does.\<close>

definition BytebaseDatabase :: string where
  "BytebaseDatabase = ''bytebase''"

definition createBytebaseDatabaseStmt :: string where
  "createBytebaseDatabaseStmt = ''CREATE DATABASE bytebase;''"

subsection \<open>\<open>guessDSN\<close> and \<open>Open\<close>\<close>

text \<open>The map \<open>m\<close> of \<open>guessDSN\<close>, as its entries in the order the code writes them.\<close>

definition dsn_map ::
  "string \<Rightarrow> string \<Rightarrow> string \<Rightarrow> string \<Rightarrow> string \<Rightarrow> string \<Rightarrow> string \<Rightarrow> (string \<times> string) list" where
  "dsn_map username password hostname port sslCA sslCert sslKey =
     [(''host'', hostname), (''port'', port), (''user'', username), (''password'', password)]
     @ (if sslCA = [] then []
        else [(''sslmode'', ''verify-ca''), (''sslrootcert'', sslCA)]
             @ (if sslCert \<noteq> [] \<and> sslKey \<noteq> []
                then [(''sslcert'', sslCert), (''sslkey'', sslKey)] else []))"

text \<open>\<open>for k, v := range m\<close> visits the entries in an order the Go runtime chooses:
  \<open>range_order\<close>, a parameter, is that choice.\<close>

definition dsn_tokens ::
  "((string \<times> string) list \<Rightarrow> (string \<times> string) list) \<Rightarrow> (string \<times> string) list \<Rightarrow> string list" where
  "dsn_tokens range_order m =
     map (\<lambda>(k, v). k @ ''='' @ v) (filter (\<lambda>(k, v). v \<noteq> []) (range_order m))"

definition guesses_for :: "string \<Rightarrow> string list" where
  "guesses_for database =
     (if database \<noteq> [] then [database] else [[], ''bytebase'', ''postgres'', ''template1''])"

definition guess_dsn :: "string \<Rightarrow> string \<Rightarrow> string" where
  "guess_dsn dsn guess = (if guess \<noteq> [] then dsn @ '' dbname='' @ guess else dsn)"

text \<open>The loop over the guesses. \<open>opened\<close> are the handles whose \<open>Close\<close> is deferred.\<close>

fun try_guesses ::
  "server \<Rightarrow> string \<Rightarrow> string list \<Rightarrow> call list \<Rightarrow> string list
     \<Rightarrow> (string \<times> string) option \<times> call list \<times> string list" where
  "try_guesses srv dsn [] tr opened = (None, tr, opened)"
| "try_guesses srv dsn (guess # guesses) tr opened =
     (let guessDSN = guess_dsn dsn guess;
          tr1 = tr @ [SqlOpen guessDSN]
      in case reply_error (srv tr1) of
           Some err \<Rightarrow> try_guesses srv dsn guesses tr1 opened
         | None \<Rightarrow>
            (let tr2 = tr1 @ [DbPing guessDSN]
             in case reply_error (srv tr2) of
                  Some err \<Rightarrow> try_guesses srv dsn guesses tr2 (guessDSN # opened)
                | None \<Rightarrow> (Some (guess, guessDSN), tr2, guessDSN # opened)))"

definition guessDSN ::
  "server \<Rightarrow> ((string \<times> string) list \<Rightarrow> (string \<times> string) list)
     \<Rightarrow> string \<Rightarrow> string \<Rightarrow> string \<Rightarrow> string \<Rightarrow> string \<Rightarrow> string \<Rightarrow> string \<Rightarrow> string
     \<Rightarrow> call list \<Rightarrow> (error + string \<times> string) \<times> call list" where
  "guessDSN srv range_order username password hostname port database sslCA sslCert sslKey tr =
     (let m = dsn_map username password hostname port sslCA sslCert sslKey;
          tokens = dsn_tokens range_order m;
          dsn = Join tokens '' '';
          guesses = guesses_for database
      in case try_guesses srv dsn guesses tr [] of
           (found, tr1, opened) \<Rightarrow>
             (let tr2 = tr1 @ map DbClose opened
              in case found of
                   Some (guess, guessDSN) \<Rightarrow> (Inr (guess, guessDSN), tr2)
                 | None \<Rightarrow>
                     if database \<noteq> [] then
                       (Inl (Errorf
                          ''cannot connecting %q, make sure the connection info is correct and the database exists''
                          [ArgString database]), tr2)
                     else
                       (Inl (Errorf
                          ''cannot connecting instance, make sure the connection info is correct''
                          []), tr2)))"

text \<open>\<open>Open\<close>, on the receiver \<open>driver\<close>. It returns the receiver, so the result is the
  error and the receiver's new state.\<close>

definition Open ::
  "server \<Rightarrow> ((string \<times> string) list \<Rightarrow> (string \<times> string) list)
     \<Rightarrow> ConnectionConfig \<Rightarrow> Driver \<Rightarrow> error option \<times> Driver" where
  "Open srv range_order cfg driver =
     (if (SslCert (TLSConfig cfg) = [] \<and> SslKey (TLSConfig cfg) \<noteq> [])
         \<or> (SslCert (TLSConfig cfg) \<noteq> [] \<and> SslKey (TLSConfig cfg) = [])
      then (Some (Errorf ''ssl-cert and ssl-key must be both set or unset'' []), driver)
      else
        (case guessDSN srv range_order (Username cfg) (Password cfg) (Host cfg) (Port cfg)
                (Database cfg) (SslCA (TLSConfig cfg)) (SslCert (TLSConfig cfg))
                (SslKey (TLSConfig cfg)) (calls driver) of
           (Inl err, tr) \<Rightarrow> (Some err, driver\<lparr>calls := tr\<rparr>)
         | (Inr (guessed, dsn0), tr) \<Rightarrow>
            (let dsn = (if ReadOnly cfg then dsn0 @ '' default_transaction_read_only=true''
                        else dsn0);
                 driver = driver\<lparr>databaseName := guessed, baseDSN := dsn, config := cfg,
                                 calls := tr\<rparr>;
                 driver = (if StrictUseDb cfg then driver\<lparr>strictDatabase := Database cfg\<rparr>
                           else driver);
                 (r, driver) = call_server srv (SqlOpen dsn) driver
             in case reply_error r of
                  Some err \<Rightarrow> (Some err, driver)
                | None \<Rightarrow> (None, driver\<lparr>db := dsn\<rparr>))))"

subsection \<open>Connections and databases\<close>

definition strictUseDb :: "Driver \<Rightarrow> bool" where
  "strictUseDb driver = (length (strictDatabase driver) \<noteq> 0)"

definition switchDatabase :: "server \<Rightarrow> string \<Rightarrow> Driver \<Rightarrow> error option \<times> Driver" where
  "switchDatabase srv dbName driver =
     (let (r, driver) = call_server srv (DbClose (db driver)) driver
      in case reply_error r of
           Some err \<Rightarrow> (Some err, driver)
         | None \<Rightarrow>
            (let dsn = baseDSN driver @ '' dbname='' @ dbName;
                 (r, driver) = call_server srv (SqlOpen dsn) driver
             in case reply_error r of
                  Some err \<Rightarrow> (Some err, driver)
                | None \<Rightarrow> (None, driver\<lparr>db := dsn, databaseName := dbName\<rparr>)))"

text \<open>\<open>GetDbConnection\<close> returns the driver's handle after the switch.\<close>

definition GetDbConnection :: "server \<Rightarrow> string \<Rightarrow> Driver \<Rightarrow> (error + string) \<times> Driver" where
  "GetDbConnection srv database driver =
     (case switchDatabase srv database driver of
        (Some err, driver) \<Rightarrow> (Inl err, driver)
      | (None, driver) \<Rightarrow> (Inr (db driver), driver))"

definition getDatabasesQuery :: string where
  "getDatabasesQuery = ''SELECT datname, pg_encoding_to_char(encoding), datcollate FROM pg_database;''"

definition getDatabases :: "server \<Rightarrow> Driver \<Rightarrow> (error + pgDatabaseSchema list) \<times> Driver" where
  "getDatabases srv driver =
     (let (r, driver) = call_server srv (DbQuery (db driver) getDatabasesQuery) driver
      in case r of
           Failed err \<Rightarrow> (Inl err, driver)
         | DatabaseRows rows \<Rightarrow> (scan_all rows, driver)
         | _ \<Rightarrow> (Inr [], driver))"

definition hasBytebaseDatabase :: "server \<Rightarrow> Driver \<Rightarrow> (error + bool) \<times> Driver" where
  "hasBytebaseDatabase srv driver =
     (case getDatabases srv driver of
        (Inl err, driver) \<Rightarrow> (Inl err, driver)
      | (Inr databases, driver) \<Rightarrow>
          (Inr (list_ex (\<lambda>database. name database = BytebaseDatabase) databases), driver))"

subsection \<open>The claim's words about \<open>guessDSN\<close>\<close>

text \<open>A candidate connection string is accepted, after the calls \<open>tr\<close>, when opening it and
  pinging it both succeed; \<open>tried\<close> is the list of calls once it has been tried;
  \<open>after_tries\<close> is the list of calls once the candidates \<open>gs\<close> have been tried one after
  the other; \<open>first_accepted\<close> is the position of the first candidate that is accepted when
  its turn comes.\<close>

abbreviation base_dsn ::
  "((string \<times> string) list \<Rightarrow> (string \<times> string) list)
     \<Rightarrow> string \<Rightarrow> string \<Rightarrow> string \<Rightarrow> string \<Rightarrow> string \<Rightarrow> string \<Rightarrow> string \<Rightarrow> string" where
  "base_dsn range_order username password hostname port sslCA sslCert sslKey \<equiv>
     Join (dsn_tokens range_order (dsn_map username password hostname port sslCA sslCert sslKey)) '' ''"

definition accepts :: "server \<Rightarrow> call list \<Rightarrow> string \<Rightarrow> bool" where
  "accepts srv tr gd =
     (reply_error (srv (tr @ [SqlOpen gd])) = None
      \<and> reply_error (srv (tr @ [SqlOpen gd, DbPing gd])) = None)"

definition tried :: "server \<Rightarrow> call list \<Rightarrow> string \<Rightarrow> call list" where
  "tried srv tr gd =
     (if reply_error (srv (tr @ [SqlOpen gd])) = None
      then tr @ [SqlOpen gd, DbPing gd] else tr @ [SqlOpen gd])"

definition after_tries :: "server \<Rightarrow> string \<Rightarrow> call list \<Rightarrow> string list \<Rightarrow> call list" where
  "after_tries srv dsn tr gs = foldl (tried srv) tr (map (guess_dsn dsn) gs)"

definition first_accepted :: "server \<Rightarrow> string \<Rightarrow> call list \<Rightarrow> string list \<Rightarrow> nat option" where
  "first_accepted srv dsn tr gs =
     find (\<lambda>k. accepts srv (after_tries srv dsn tr (take k gs)) (guess_dsn dsn (gs ! k)))
          [0..<length gs]"

definition tls_pair_mismatch :: "ConnectionConfig \<Rightarrow> bool" where
  "tls_pair_mismatch cfg =
     ((SslCert (TLSConfig cfg) = [] \<and> SslKey (TLSConfig cfg) \<noteq> [])
      \<or> (SslCert (TLSConfig cfg) \<noteq> [] \<and> SslKey (TLSConfig cfg) = []))"

subsection \<open>\<open>Execute\<close>\<close>

definition getDatabaseInCreateDatabaseStatement ::
  "(string \<Rightarrow> string list) \<Rightarrow> string \<Rightarrow> error + string" where
  "getDatabaseInCreateDatabaseStatement unicode_fields createDatabaseStatement =
     (let raw = TrimRight createDatabaseStatement '';'';
          raw = TrimPrefix raw ''CREATE DATABASE'';
          tokens = Fields unicode_fields raw
      in case tokens of
           [] \<Rightarrow> Inl (Errorf ''database name not found'' [])
         | token # _ \<Rightarrow>
            (let databaseName = TrimLeft token [DQ];
                 databaseName = TrimRight databaseName [DQ]
             in Inr databaseName))"

definition currentDatabaseOwnerQuery :: string where
  "currentDatabaseOwnerQuery =
     [CHR 0x0A, CHR 0x09, CHR 0x09] @ ''SELECT'' @
     [CHR 0x0A, CHR 0x09, CHR 0x09, CHR 0x09] @ ''u.rolname'' @
     [CHR 0x0A, CHR 0x09, CHR 0x09] @ ''FROM'' @
     [CHR 0x0A, CHR 0x09, CHR 0x09, CHR 0x09] @
     ''pg_roles AS u JOIN pg_database AS d ON (d.datdba = u.oid)'' @
     [CHR 0x0A, CHR 0x09, CHR 0x09] @ ''WHERE'' @
     [CHR 0x0A, CHR 0x09, CHR 0x09, CHR 0x09] @ ''d.datname = current_database();'' @
     [CHR 0x0A, CHR 0x09, CHR 0x09]"

text \<open>The loop of \<open>getCurrentDatabaseOwner\<close> over the rows: the last row read gives the
  owner, and a row that fails to scan ends the loop with its error.\<close>

fun scan_owner :: "(error + string) list \<Rightarrow> string \<Rightarrow> error + string" where
  "scan_owner [] owner = Inr owner"
| "scan_owner (Inl err # rows) owner = Inl err"
| "scan_owner (Inr o' # rows) owner = scan_owner rows o'"

definition getCurrentDatabaseOwner :: "server \<Rightarrow> Driver \<Rightarrow> (error + string) \<times> Driver" where
  "getCurrentDatabaseOwner srv driver =
     (let (r, driver) = call_server srv (TxQuery currentDatabaseOwnerQuery) driver
      in case r of
           Failed err \<Rightarrow> (Inl err, driver)
         | _ \<Rightarrow>
            (case scan_owner (case r of OwnerRows rows \<Rightarrow> rows | _ \<Rightarrow> []) [] of
               Inl err \<Rightarrow> (Inl err, driver)
             | Inr owner \<Rightarrow>
                 if owner = [] then
                   (Inl (Errorf ''Owner not found for the current database'' []), driver)
                 else (Inr owner, driver)))"

text \<open>The closure \<open>f\<close> of \<open>Execute\<close>, applied to one statement. Its state is the driver
  and \<open>remainingStmts\<close>.\<close>

definition Execute_f ::
  "server \<Rightarrow> (string \<Rightarrow> string list) \<Rightarrow> string \<Rightarrow> Driver \<times> string list
     \<Rightarrow> error option \<times> Driver \<times> string list" where
  "Execute_f srv unicode_fields stmt0 st =
     (case st of (driver, remainingStmts) \<Rightarrow>
      (let stmt = TrimLeft stmt0 [CHR '' '', CHR 0x09] in
       if HasPrefix stmt ''CREATE DATABASE '' then
         (case getDatabases srv driver of
            (Inl err, driver) \<Rightarrow> (Some err, driver, remainingStmts)
          | (Inr databases, driver) \<Rightarrow>
             (case getDatabaseInCreateDatabaseStatement unicode_fields stmt of
                Inl err \<Rightarrow> (Some err, driver, remainingStmts)
              | Inr databaseName' \<Rightarrow>
                 (let exist = list_ex (\<lambda>database. name database = databaseName') databases
                  in if \<not> exist then
                       (let (r, driver) = call_server srv (DbExec (db driver) stmt []) driver
                        in (reply_error r, driver, remainingStmts))
                     else (None, driver, remainingStmts))))
       else if HasPrefix stmt ''ALTER DATABASE'' \<and> Contains stmt '' OWNER TO '' then
         (let (r, driver) = call_server srv (DbExec (db driver) stmt []) driver
          in (reply_error r, driver, remainingStmts))
       else if HasPrefix stmt (CHR 0x5C # ''connect '') then
         (let parts = Split stmt DQ
          in if length parts \<noteq> 3 then
               (Some (Errorf ''invalid statement %q'' [ArgString stmt]), driver, remainingStmts)
             else
               (case GetDbConnection srv (parts ! 1) driver of
                  (Inl err, driver) \<Rightarrow> (Some err, driver, remainingStmts)
                | (Inr _, driver) \<Rightarrow> (None, driver, remainingStmts)))
       else (None, driver, remainingStmts @ [stmt])))"

text \<open>Modelled from the spec: \<open>util.ApplyMultiStatements\<close> is not among the source files.
  The spec (4.2, 4.7) has \<open>execute\<close> split its input into statements and handle each in
  turn. The splitter is the parameter \<open>split\<close> of \<open>Execute\<close>; \<open>f\<close> is applied to the
  statements in order, and its first error ends the run and is returned, as \<open>wrap\<close> (a
  parameter: how the helper reports the error of a statement) presents it.\<close>

fun ApplyMultiStatements ::
  "(string \<Rightarrow> error \<Rightarrow> error) \<Rightarrow> string list \<Rightarrow> (string \<Rightarrow> 's \<Rightarrow> error option \<times> 's) \<Rightarrow> 's
     \<Rightarrow> error option \<times> 's" where
  "ApplyMultiStatements wrap [] f st = (None, st)"
| "ApplyMultiStatements wrap (s # ss) f st =
     (case f s st of
        (Some err, st') \<Rightarrow> (Some (wrap s err), st')
      | (None, st') \<Rightarrow> ApplyMultiStatements wrap ss f st')"

text \<open>The statements of \<open>Execute\<close> between \<open>defer tx.Rollback()\<close> and \<open>tx.Commit()\<close>:
  the owner lookup, \<open>SET LOCAL ROLE\<close> and the remaining statements, joined by line feeds.\<close>

definition Execute_in_tx :: "server \<Rightarrow> string list \<Rightarrow> Driver \<Rightarrow> error option \<times> Driver" where
  "Execute_in_tx srv remainingStmts driver =
     (case getCurrentDatabaseOwner srv driver of
        (Inl err, driver) \<Rightarrow> (Some err, driver)
      | (Inr owner, driver) \<Rightarrow>
         (let (r, driver) = call_server srv (TxExec (''SET LOCAL ROLE '' @ owner)) driver
          in case reply_error r of
               Some err \<Rightarrow> (Some err, driver)
             | None \<Rightarrow>
                (let (r, driver) =
                       call_server srv (TxExec (Join remainingStmts [CHR 0x0A])) driver
                 in (reply_error r, driver))))"

text \<open>\<open>Execute\<close>. The deferred \<open>tx.Rollback()\<close> runs on every return after \<open>BeginTx\<close>
  succeeded, also after a commit (where \<open>database/sql\<close> makes it a no-op); its result is
  dropped.\<close>

definition Execute ::
  "server \<Rightarrow> (string \<Rightarrow> string list) \<Rightarrow> (string \<Rightarrow> error \<Rightarrow> error) \<Rightarrow> (string \<Rightarrow> string list)
     \<Rightarrow> string \<Rightarrow> Driver \<Rightarrow> error option \<times> Driver" where
  "Execute srv split wrap unicode_fields statement driver =
     (case ApplyMultiStatements wrap (split statement) (Execute_f srv unicode_fields) (driver, []) of
        (Some err, driver, remainingStmts) \<Rightarrow> (Some err, driver)
      | (None, driver, remainingStmts) \<Rightarrow>
          if length remainingStmts = 0 then (None, driver)
          else
            (let (r, driver) = call_server srv (DbBeginTx (db driver)) driver
             in case reply_error r of
                  Some err \<Rightarrow> (Some err, driver)
                | None \<Rightarrow>
                   (case Execute_in_tx srv remainingStmts driver of
                      (Some err, driver) \<Rightarrow>
                        (Some err, snd (call_server srv TxRollback driver))
                    | (None, driver) \<Rightarrow>
                       (let (r, driver) = call_server srv TxCommit driver
                        in (reply_error r, snd (call_server srv TxRollback driver))))))"

text \<open>The claim's words about \<open>Execute\<close>: the bucket of a statement (read after its
  leading blanks and tabs are dropped), and the calls that belong to a transaction.\<close>

datatype bucket = CreateDatabase | AlterDatabaseOwner | Connect | Remaining

definition bucket_of :: "string \<Rightarrow> bucket" where
  "bucket_of stmt =
     (if HasPrefix stmt ''CREATE DATABASE '' then CreateDatabase
      else if HasPrefix stmt ''ALTER DATABASE'' \<and> Contains stmt '' OWNER TO '' then AlterDatabaseOwner
      else if HasPrefix stmt (CHR 0x5C # ''connect '') then Connect
      else Remaining)"

fun is_tx_call :: "call \<Rightarrow> bool" where
  "is_tx_call (DbBeginTx h) = True"
| "is_tx_call (TxQuery q) = True"
| "is_tx_call (TxExec s) = True"
| "is_tx_call TxCommit = True"
| "is_tx_call TxRollback = True"
| "is_tx_call c = False"

definition trimmed_statements :: "(string \<Rightarrow> string list) \<Rightarrow> string \<Rightarrow> string list" where
  "trimmed_statements split statement =
     map (\<lambda>stmt. TrimLeft stmt [CHR '' '', CHR 0x09]) (split statement)"

definition remaining_statements :: "(string \<Rightarrow> string list) \<Rightarrow> string \<Rightarrow> string list" where
  "remaining_statements split statement =
     filter (\<lambda>stmt. bucket_of stmt = Remaining) (trimmed_statements split statement)"

subsection \<open>\<open>NeedsSetupMigration\<close> and \<open>SetupMigrationIfNeeded\<close>\<close>

definition needsSetupMigrationQuery :: string where
  "needsSetupMigrationQuery =
     [CHR 0x0A, CHR 0x09, CHR 0x09] @ ''SELECT'' @ [CHR 0x0A, CHR 0x09, CHR 0x09] @
     ''    1'' @ [CHR 0x0A, CHR 0x09, CHR 0x09] @ ''FROM information_schema.tables'' @
     [CHR 0x0A, CHR 0x09, CHR 0x09] @ ''WHERE table_name = '' @ [CHR 0x27] @
     ''migration_history'' @ [CHR 0x27, CHR 0x0A, CHR 0x09]"

text \<open>\<open>util.NeedsSetupMigrationSchema(ctx, driver.db, query)\<close> is not among the source
  files: it is the parameter \<open>NeedsSetupMigrationSchema\<close>, given the handle, the query and
  the calls made so far, and returning its result and the calls made after it.\<close>

definition NeedsSetupMigration ::
  "server \<Rightarrow> (string \<Rightarrow> string \<Rightarrow> call list \<Rightarrow> (error + bool) \<times> call list) \<Rightarrow> Driver
     \<Rightarrow> (error + bool) \<times> Driver" where
  "NeedsSetupMigration srv NeedsSetupMigrationSchema driver =
     (let check = (\<lambda>driver.
            case NeedsSetupMigrationSchema (db driver) needsSetupMigrationQuery (calls driver) of
              (r, tr) \<Rightarrow> (r, driver\<lparr>calls := tr\<rparr>))
      in if \<not> strictUseDb driver then
           (case hasBytebaseDatabase srv driver of
              (Inl err, driver) \<Rightarrow> (Inl err, driver)
            | (Inr exist, driver) \<Rightarrow>
                if \<not> exist then (Inr True, driver)
                else
                  (case switchDatabase srv BytebaseDatabase driver of
                     (Some err, driver) \<Rightarrow> (Inl err, driver)
                   | (None, driver) \<Rightarrow> check driver))
         else check driver)"

text \<open>The block of \<open>SetupMigrationIfNeeded\<close> under \<open>if !driver.strictUseDb()\<close>: create the
  \<open>bytebase\<close> database when it is missing, then switch to it. \<open>util.FormatErrorWithQuery\<close>
  is not among the source files and is a parameter.\<close>

definition setup_bytebase_database ::
  "server \<Rightarrow> (error \<Rightarrow> string \<Rightarrow> error) \<Rightarrow> Driver \<Rightarrow> error option \<times> Driver" where
  "setup_bytebase_database srv FormatErrorWithQuery driver =
     (case hasBytebaseDatabase srv driver of
        (Inl err, driver) \<Rightarrow>
          (Some (Errorf ''failed to find bytebase database error: %v'' [ArgError err]), driver)
      | (Inr exist, driver) \<Rightarrow>
         (case (if \<not> exist then
                  (let (r, driver) =
                         call_server srv (DbExec (db driver) createBytebaseDatabaseStmt []) driver
                   in (reply_error r, driver))
                else (None, driver)) of
            (Some err, driver) \<Rightarrow>
              (Some (FormatErrorWithQuery err createBytebaseDatabaseStmt), driver)
          | (None, driver) \<Rightarrow>
             (case switchDatabase srv BytebaseDatabase driver of
                (Some err, driver) \<Rightarrow>
                  (Some (Errorf ''failed to switch to bytebase database error: %v'' [ArgError err]),
                   driver)
              | (None, driver) \<Rightarrow> (None, driver))))"

text \<open>\<open>SetupMigrationIfNeeded\<close>. \<open>migrationSchema\<close> is the embedded file
  \<open>pg_migration_schema.sql\<close>, which is not among the source files: a parameter.\<close>

definition SetupMigrationIfNeeded ::
  "server \<Rightarrow> (string \<Rightarrow> string \<Rightarrow> call list \<Rightarrow> (error + bool) \<times> call list)
     \<Rightarrow> (error \<Rightarrow> string \<Rightarrow> error) \<Rightarrow> string \<Rightarrow> Driver \<Rightarrow> error option \<times> Driver" where
  "SetupMigrationIfNeeded srv NeedsSetupMigrationSchema FormatErrorWithQuery migrationSchema driver =
     (case NeedsSetupMigration srv NeedsSetupMigrationSchema driver of
        (Inl err, driver) \<Rightarrow> (None, driver)
      | (Inr setup, driver) \<Rightarrow>
          if setup then
            (case (if \<not> strictUseDb driver
                   then setup_bytebase_database srv FormatErrorWithQuery driver
                   else (None, driver)) of
               (Some err, driver) \<Rightarrow> (Some err, driver)
             | (None, driver) \<Rightarrow>
                (let (r, driver) = call_server srv (DbExec (db driver) migrationSchema []) driver
                 in case reply_error r of
                      Some err \<Rightarrow> (Some (FormatErrorWithQuery err migrationSchema), driver)
                    | None \<Rightarrow> (None, driver)))
          else (None, driver))"

subsection \<open>\<open>FindMigrationHistoryList\<close> and the backfill of stored versions\<close>

record MigrationHistoryFind =
  ID :: "int option"
  Database_find :: "string option"
  Version :: "string option"
  Source :: "string option"
  Limit :: "int option"

text \<open>What the driver uses of the packages \<open>plugin/db\<close> and \<open>plugin/db/util\<close>, which are
  not among the source files: a parameter. \<open>util_FindMigrationHistoryList\<close> is given the
  query, its parameters, the database, the filter, the base query and the driver, and
  returns the history with the error, as the Go function does, and the driver after it.
  \<open>Sprintf\<close> is the library's \<open>fmt.Sprintf\<close>, which gives an \<open>Errorf\<close> error its message.\<close>

record 'h helpers =
  ToStoredVersion :: "bool \<Rightarrow> string \<Rightarrow> string \<Rightarrow> error + string"
  FormatParamNameInNumberedPosition :: "string list \<Rightarrow> string"
  util_FindMigrationHistoryList ::
    "string \<Rightarrow> sql_arg list \<Rightarrow> string \<Rightarrow> MigrationHistoryFind \<Rightarrow> string \<Rightarrow> Driver
       \<Rightarrow> ('h list \<times> error option) \<times> Driver"
  NonSemanticPrefix :: string
  Sprintf :: "string \<Rightarrow> fmt_arg list \<Rightarrow> string"

definition baseQuery :: string where
  "baseQuery =
     [CHR 0x0A, CHR 0x09] @ ''SELECT'' @ [CHR 0x0A, CHR 0x09, CHR 0x09] @ ''id,'' @
     [CHR 0x0A, CHR 0x09, CHR 0x09] @ ''created_by,'' @
     [CHR 0x0A, CHR 0x09, CHR 0x09] @ ''created_ts,'' @
     [CHR 0x0A, CHR 0x09, CHR 0x09] @ ''updated_by,'' @
     [CHR 0x0A, CHR 0x09, CHR 0x09] @ ''updated_ts,'' @
     [CHR 0x0A, CHR 0x09, CHR 0x09] @ ''release_version,'' @
     [CHR 0x0A, CHR 0x09, CHR 0x09] @ ''namespace,'' @ [CHR 0x0A, CHR 0x09, CHR 0x09] @
     ''sequence,'' @ [CHR 0x0A, CHR 0x09, CHR 0x09] @ ''source,'' @
     [CHR 0x0A, CHR 0x09, CHR 0x09] @ ''type,'' @ [CHR 0x0A, CHR 0x09, CHR 0x09] @
     ''status,'' @ [CHR 0x0A, CHR 0x09, CHR 0x09] @ ''version,'' @
     [CHR 0x0A, CHR 0x09, CHR 0x09] @ ''description,'' @
     [CHR 0x0A, CHR 0x09, CHR 0x09] @ ''statement,'' @
     [CHR 0x0A, CHR 0x09, CHR 0x09, CHR 0x22] @ ''schema'' @ [CHR 0x22] @ '','' @
     [CHR 0x0A, CHR 0x09, CHR 0x09] @ ''schema_prev,'' @
     [CHR 0x0A, CHR 0x09, CHR 0x09] @ ''execution_duration_ns,'' @
     [CHR 0x0A, CHR 0x09, CHR 0x09] @ ''issue_id,'' @ [CHR 0x0A, CHR 0x09, CHR 0x09] @
     ''payload'' @ [CHR 0x0A, CHR 0x09, CHR 0x09] @ ''FROM migration_history ''"

definition selectVersionsQuery :: string where
  "selectVersionsQuery = ''SELECT id, version FROM migration_history''"

definition updateQuery :: string where
  "updateQuery =
     [CHR 0x0A, CHR 0x09, CHR 0x09] @ ''UPDATE'' @
     [CHR 0x0A, CHR 0x09, CHR 0x09, CHR 0x09] @ ''migration_history'' @
     [CHR 0x0A, CHR 0x09, CHR 0x09] @ ''SET'' @
     [CHR 0x0A, CHR 0x09, CHR 0x09, CHR 0x09] @ ''version = $1'' @
     [CHR 0x0A, CHR 0x09, CHR 0x09] @ ''WHERE id = $2 AND version = $3'' @
     [CHR 0x0A, CHR 0x09]"

text \<open>The last loop of \<open>updateMigrationHistoryStorageVersion\<close>, over the rows read.\<close>

fun update_versions ::
  "server \<Rightarrow> string \<Rightarrow> string \<Rightarrow> (int \<times> string) list \<Rightarrow> Driver \<Rightarrow> error option \<times> Driver" where
  "update_versions srv pre sqldb [] driver = (None, driver)"
| "update_versions srv pre sqldb ((v_id, v_version) # vers) driver =
     (if HasPrefix v_version pre then update_versions srv pre sqldb vers driver
      else
        (let newVersion = pre @ v_version;
             (r, driver) =
               call_server srv
                 (DbExec sqldb updateQuery [ArgS newVersion, ArgI v_id, ArgS v_version]) driver
         in case reply_error r of
              Some err \<Rightarrow> (Some err, driver)
            | None \<Rightarrow> update_versions srv pre sqldb vers driver))"

text \<open>\<open>updateMigrationHistoryStorageVersion\<close>. In strict database mode \<open>sqldb\<close> stays
  \<open>nil\<close> and \<open>err\<close> stays \<open>nil\<close>, and \<open>sqldb.Query\<close> dereferences the nil handle.\<close>

definition updateMigrationHistoryStorageVersion ::
  "server \<Rightarrow> string \<Rightarrow> Driver \<Rightarrow> (error option \<times> Driver) outcome" where
  "updateMigrationHistoryStorageVersion srv pre driver =
     (case (if \<not> strictUseDb driver then
              (case GetDbConnection srv BytebaseDatabase driver of
                 (Inl err, driver) \<Rightarrow> (None, Some err, driver)
               | (Inr h, driver) \<Rightarrow> (Some h, None, driver))
            else (None, None, driver)) of
        (sqldb, Some err, driver) \<Rightarrow> Returns (Some err, driver)
      | (None, None, driver) \<Rightarrow> Panic
      | (Some sqldb, None, driver) \<Rightarrow>
         (let (r, driver) = call_server srv (DbQuery sqldb selectVersionsQuery) driver
          in case r of
               Failed err \<Rightarrow> Returns (Some err, driver)
             | _ \<Rightarrow>
                (case scan_all (case r of VersionRows rows \<Rightarrow> rows | _ \<Rightarrow> []) of
                   Inl err \<Rightarrow> Returns (Some err, driver)
                 | Inr vers \<Rightarrow>
                    (let (r, driver) = call_server srv RowsClose driver
                     in case reply_error r of
                          Some err \<Rightarrow> Returns (Some err, driver)
                        | None \<Rightarrow> Returns (update_versions srv pre sqldb vers driver)))))"

text \<open>The first part of \<open>FindMigrationHistoryList\<close>: the query and its parameters, or the
  error of \<open>util.ToStoredVersion\<close>.\<close>

definition history_query ::
  "'h helpers \<Rightarrow> MigrationHistoryFind \<Rightarrow> error + string \<times> sql_arg list" where
  "history_query H hfind =
     (let paramNames = []; params = [];
          (paramNames, params) =
             (case ID hfind of
                Some v \<Rightarrow> (paramNames @ [''id''], params @ [ArgI v])
              | None \<Rightarrow> (paramNames, params));
          (paramNames, params) =
             (case Database_find hfind of
                Some v \<Rightarrow> (paramNames @ [''namespace''], params @ [ArgS v])
              | None \<Rightarrow> (paramNames, params))
      in case (case Version hfind of
                 Some v \<Rightarrow>
                   (case ToStoredVersion H False v [] of
                      Inl err \<Rightarrow> Inl err
                    | Inr storedVersion \<Rightarrow>
                        Inr (paramNames @ [''version''], params @ [ArgS storedVersion]))
               | None \<Rightarrow> Inr (paramNames, params)) of
           Inl err \<Rightarrow> Inl err
         | Inr (paramNames, params) \<Rightarrow>
            (let (paramNames, params) =
                   (case Source hfind of
                      Some v \<Rightarrow> (paramNames @ [''source''], params @ [ArgS v])
                    | None \<Rightarrow> (paramNames, params));
                 query = baseQuery @ FormatParamNameInNumberedPosition H paramNames
                         @ ''ORDER BY created_ts DESC'';
                 query = (case Limit hfind of
                            Some v \<Rightarrow> query @ '' LIMIT '' @ Itoa v
                          | None \<Rightarrow> query)
             in Inr (query, params)))"

definition isBytebaseDatabase :: "Driver \<Rightarrow> bool" where
  "isBytebaseDatabase driver =
     (Contains (baseDSN driver) ''user=bb'' \<and> Contains (baseDSN driver) ''host=/tmp'')"

definition FindMigrationHistoryList ::
  "server \<Rightarrow> 'h helpers \<Rightarrow> MigrationHistoryFind \<Rightarrow> Driver
     \<Rightarrow> (('h list \<times> error option) \<times> Driver) outcome" where
  "FindMigrationHistoryList srv H hfind driver =
     (case history_query H hfind of
        Inl err \<Rightarrow> Returns (([], Some err), driver)
      | Inr (query, params) \<Rightarrow>
         (let database = (if strictUseDb driver then strictDatabase driver else BytebaseDatabase)
          in case util_FindMigrationHistoryList H query params database hfind baseQuery driver of
               ((history, err), driver) \<Rightarrow>
                 (case err of
                    None \<Rightarrow> Returns ((history, err), driver)
                  | Some e \<Rightarrow>
                      if \<not> isBytebaseDatabase driver then
                        if \<not> Contains (Error_message (Sprintf H) e) ''invalid stored version''
                        then Returns (([], err), driver)
                        else
                          (case updateMigrationHistoryStorageVersion srv (NonSemanticPrefix H)
                                  driver of
                             Panic \<Rightarrow> Panic
                           | Returns (Some err', driver) \<Rightarrow> Returns (([], Some err'), driver)
                           | Returns (None, driver) \<Rightarrow>
                               Returns (util_FindMigrationHistoryList H query params
                                          BytebaseDatabase hfind baseQuery driver))
                      else Returns ((history, err), driver))))"




section \<open>server: the GitLab webhook\<close>

text \<open>The push event as \<open>json.Unmarshal\<close> fills it, with the fields the handler reads.\<close>

record Project =
  Project_ID :: int
  WebURL :: string
  FullPath :: string

record Commit =
  Commit_ID :: string
  Title :: string
  Message :: string
  Timestamp :: string
  URL :: string
  Author_Name :: string
  AddedList :: "string list"

record WebhookPushEvent =
  ObjectKind :: string
  Ref :: string
  AuthorName :: string
  Project :: Project
  CommitList :: "Commit list"

text \<open>The repository, the migration descriptor and the database, with the fields the
  handler reads; the fields reached through a pointer (\<open>repository.VCS.InstanceURL\<close>,
  \<open>database.Instance.Environment.Name\<close>) are fields of the record itself.\<close>

record Repository =
  repo_Name :: string
  SecretToken :: string
  ExternalId :: string
  BaseDirectory :: string
  ProjectId :: int
  VCS_InstanceURL :: string
  VCS_AccessToken :: string
  VCS_Type :: string

record MigrationInfo =
  mi_Database :: string
  mi_Description :: string

record Database_record =
  database_ID :: int
  InstanceId :: int
  database_ProjectId :: int
  Instance_EnvironmentId :: int
  Instance_Environment_Name :: string

record VCSFileCommit =
  fc_ID :: string
  fc_Title :: string
  fc_Message :: string
  fc_CreatedTs :: int
  fc_URL :: string
  fc_AuthorName :: string
  fc_Added :: string

record VCSPushEvent =
  VCSType :: string
  pe_Ref :: string
  RepositoryID :: string
  RepositoryURL :: string
  RepositoryFullPath :: string
  pe_AuthorName :: string
  FileCommit :: VCSFileCommit

record TaskCreate =
  task_InstanceId :: int
  task_DatabaseId :: "int option"
  task_Name :: string
  task_Status :: string
  task_Type :: string
  task_Statement :: string
  task_VCSPushEvent :: "VCSPushEvent option"

record StageCreate =
  stage_EnvironmentId :: int
  TaskList :: "TaskCreate list"
  stage_Name :: string

record PipelineCreate =
  StageList :: "StageCreate list"
  pipeline_Name :: string

record IssueCreate =
  issue_ProjectId :: int
  Pipeline :: PipelineCreate
  issue_Name :: string
  issue_Type :: string
  issue_Description :: string
  AssigneeId :: int

record Issue =
  Name :: string

text \<open>The request, as the handler reads it: the result of \<open>io.ReadAll\<close> on the body, the
  \<open>X-Gitlab-Token\<close> header and the \<open>id\<close> of the path.\<close>

record request =
  req_body :: "error + string"
  X_Gitlab_Token :: string
  param_id :: string

text \<open>\<open>echo.NewHTTPError(status, message).SetInternal(err)\<close> and \<open>c.String(status, body)\<close>.\<close>

datatype response = HTTPError int string "error option" | String int string

definition StatusOK :: int where "StatusOK = 200"
definition StatusBadRequest :: int where "StatusBadRequest = 400"
definition StatusNotFound :: int where "StatusNotFound = 404"
definition StatusInternalServerError :: int where "StatusInternalServerError = 500"

fun status_of :: "response \<Rightarrow> int" where
  "status_of (HTTPError code msg internal) = code"
| "status_of (String code body) = code"

text \<open>What the handler calls outside the source files, a parameter: the JSON decoder, the
  error code test \<open>bytebase.ErrorCode(err) == bytebase.ENOTFOUND\<close>, the services of the
  server, \<open>db.ParseMigrationInfo\<close>, \<open>url.QueryEscape\<close>, \<open>gitlab.GET\<close> (whose result is the
  response, given as what \<open>io.ReadAll\<close> reads from its body), \<open>time.Parse\<close> with the
  RFC 3339 layout (as seconds since the epoch), and the constants of the packages \<open>api\<close> and
  \<open>gitlab\<close>. \<open>CreateIssue\<close> is given the issues created so far, the state of the issue
  service.\<close>

record hook_env =
  Unmarshal :: "string \<Rightarrow> error + WebhookPushEvent"
  WebhookPush :: string
  is_ENOTFOUND :: "error \<Rightarrow> bool"
  FindRepository :: "string \<Rightarrow> error + Repository"
  ComposeRepositoryRelationship :: "Repository \<Rightarrow> error + Repository"
  ParseMigrationInfo :: "string \<Rightarrow> error + MigrationInfo"
  QueryEscape :: "string \<Rightarrow> string"
  gitlab_GET :: "string \<Rightarrow> string \<Rightarrow> string \<Rightarrow> error + (error + string)"
  ComposeDatabaseByFind :: "int \<Rightarrow> string \<Rightarrow> error + Database_record"
  time_Parse :: "string \<Rightarrow> error + int"
  CreateIssue :: "IssueCreate list \<Rightarrow> IssueCreate \<Rightarrow> int \<Rightarrow> error + Issue"
  TaskDatabaseSchemaUpdate :: string
  IssueDatabaseSchemaUpdate :: string
  SYSTEM_BOT_ID :: int

text \<open>\<open>time.Time{}.Unix()\<close>, the seconds of the zero time, which \<open>time.Parse\<close> returns
  with its error.\<close>

definition zero_time_unix :: int where
  "zero_time_unix = - 62135596800"

text \<open>The body of the inner loop, for one added path of one commit. Its state is
  \<open>createdMessageList\<close> and the issues created so far; \<open>continue\<close> leaves it as it is.\<close>

definition webhook_added ::
  "hook_env \<Rightarrow> Repository \<Rightarrow> WebhookPushEvent \<Rightarrow> Commit \<Rightarrow> string
     \<Rightarrow> string list \<times> IssueCreate list \<Rightarrow> string list \<times> IssueCreate list" where
  "webhook_added E repository pushEvent commit added st =
     (case st of (createdMessageList, issues) \<Rightarrow>
      if HasPrefix added (BaseDirectory repository) \<and> Ext added = ''.sql'' then
        (let filename = Base added in
         case ParseMigrationInfo E filename of
           Inl err \<Rightarrow> st
         | Inr mi \<Rightarrow>
            (case gitlab_GET E (VCS_InstanceURL repository)
                    (''projects/'' @ ExternalId repository @ ''/repository/files/''
                     @ QueryEscape E added @ ''/raw?ref='' @ Commit_ID commit)
                    (VCS_AccessToken repository) of
               Inl err \<Rightarrow> st
             | Inr resp_Body \<Rightarrow>
                (case resp_Body of
                   Inl err \<Rightarrow> st
                 | Inr b \<Rightarrow>
                    (case ComposeDatabaseByFind E (ProjectId repository) (mi_Database mi) of
                       Inl err \<Rightarrow> st
                     | Inr database \<Rightarrow>
                        (let createdTime = (case time_Parse E (Timestamp commit) of
                                              Inl err \<Rightarrow> zero_time_unix
                                            | Inr t \<Rightarrow> t);
                             vcsPushEvent =
                               \<lparr>VCSType = VCS_Type repository,
                                pe_Ref = Ref pushEvent,
                                RepositoryID = Itoa (Project_ID (Project pushEvent)),
                                RepositoryURL = WebURL (Project pushEvent),
                                RepositoryFullPath = FullPath (Project pushEvent),
                                pe_AuthorName = AuthorName pushEvent,
                                FileCommit =
                                  \<lparr>fc_ID = Commit_ID commit,
                                   fc_Title = Title commit,
                                   fc_Message = Message commit,
                                   fc_CreatedTs = createdTime,
                                   fc_URL = URL commit,
                                   fc_AuthorName = Author_Name commit,
                                   fc_Added = added\<rparr>\<rparr>;
                             databaseID = database_ID database;
                             task =
                               \<lparr>task_InstanceId = InstanceId database,
                                task_DatabaseId = Some databaseID,
                                task_Name = mi_Description mi,
                                task_Status = ''PENDING'',
                                task_Type = TaskDatabaseSchemaUpdate E,
                                task_Statement = b,
                                task_VCSPushEvent = Some vcsPushEvent\<rparr>;
                             stage =
                               \<lparr>stage_EnvironmentId = Instance_EnvironmentId database,
                                TaskList = [task],
                                stage_Name = Instance_Environment_Name database\<rparr>;
                             pipeline =
                               \<lparr>StageList = [stage],
                                pipeline_Name = ''Pipeline - '' @ Title commit\<rparr>;
                             issueCreate =
                               \<lparr>issue_ProjectId = database_ProjectId database,
                                Pipeline = pipeline,
                                issue_Name = Title commit,
                                issue_Type = IssueDatabaseSchemaUpdate E,
                                issue_Description = Message commit,
                                AssigneeId = SYSTEM_BOT_ID E\<rparr>
                         in case CreateIssue E issues issueCreate (SYSTEM_BOT_ID E) of
                              Inl err \<Rightarrow> st
                            | Inr issue \<Rightarrow>
                                (createdMessageList
                                 @ [''Created issue '' @ [CHR 0x27] @ Name issue @ [CHR 0x27]
                                    @ '' on adding '' @ filename],
                                 issues @ [issueCreate]))))))
      else st)"

text \<open>The two loops, over the commits and over the added paths of each.\<close>

definition webhook_loops ::
  "hook_env \<Rightarrow> Repository \<Rightarrow> WebhookPushEvent \<Rightarrow> string list \<times> IssueCreate list
     \<Rightarrow> string list \<times> IssueCreate list" where
  "webhook_loops E repository pushEvent st =
     foldl (\<lambda>st commit.
              foldl (\<lambda>st added. webhook_added E repository pushEvent commit added st)
                    st (AddedList commit))
           st (CommitList pushEvent)"

text \<open>The handler of \<open>POST /gitlab/:id\<close>: its response, and the issues created so far
  when it returns.\<close>

definition webhook_gitlab ::
  "hook_env \<Rightarrow> request \<Rightarrow> IssueCreate list \<Rightarrow> response \<times> IssueCreate list" where
  "webhook_gitlab E req issues =
     (case req_body req of
        Inl err \<Rightarrow>
          (HTTPError StatusBadRequest ''Failed to read webhook request'' (Some err), issues)
      | Inr b \<Rightarrow>
         (case Unmarshal E b of
            Inl err \<Rightarrow> (HTTPError StatusBadRequest ''Malformatted push event'' (Some err), issues)
          | Inr pushEvent \<Rightarrow>
             if ObjectKind pushEvent \<noteq> WebhookPush E then
               (HTTPError StatusBadRequest
                  (''Invalid webhook event type, got '' @ ObjectKind pushEvent @ '', want push'')
                  None, issues)
             else
               (let webhookEndpointId = param_id req in
                case FindRepository E webhookEndpointId of
                  Inl err \<Rightarrow>
                    if is_ENOTFOUND E err then
                      (HTTPError StatusNotFound (''Endpoint not found: '' @ webhookEndpointId) None,
                       issues)
                    else
                      (HTTPError StatusInternalServerError
                         (''Failed to respond webhook event for endpoint: '' @ webhookEndpointId)
                         (Some err), issues)
                | Inr repository \<Rightarrow>
                   (case ComposeRepositoryRelationship E repository of
                      Inl err \<Rightarrow>
                        (HTTPError StatusInternalServerError
                           (''Failed to fetch repository relationship: '' @ repo_Name repository)
                           (Some err), issues)
                    | Inr repository \<Rightarrow>
                        if X_Gitlab_Token req \<noteq> SecretToken repository then
                          (HTTPError StatusBadRequest ''Secret token mismatch'' None, issues)
                        else if Itoa (Project_ID (Project pushEvent)) \<noteq> ExternalId repository then
                          (HTTPError StatusBadRequest
                             (''Project mismatch, got '' @ Itoa (Project_ID (Project pushEvent))
                              @ '', want '' @ ExternalId repository)
                             None, issues)
                        else
                          (case webhook_loops E repository pushEvent ([], issues) of
                             (createdMessageList, issues) \<Rightarrow>
                               (String StatusOK (Join createdMessageList [CHR 0x0A]),
                                issues))))))"

text \<open>The guard of the loop body, \<open>strings.HasPrefix(added, repository.BaseDirectory) &&
  filepath.Ext(added) == ".sql"\<close>, under a name.\<close>

definition passes_guard :: "Repository \<Rightarrow> string \<Rightarrow> bool" where
  "passes_guard repository added =
     (HasPrefix added (BaseDirectory repository) \<and> Ext added = ''.sql'')"

text \<open>The claim's words about the push pipeline. A path lies under a directory when it
  goes on, after the name of the directory without its trailing separators, with a
  separator: \<open>sql/a.sql\<close> lies under \<open>sql\<close> and under \<open>sql/\<close>, \<open>sqlx/a.sql\<close> does not.
  Every path lies under the directory with the empty name, the root of the repository.
  Then the added paths of an event with their commits, in order, and a request that
  passes every check before the loops.\<close>

definition lies_under :: "string \<Rightarrow> string \<Rightarrow> bool" where
  "lies_under directory path =
     (let d = TrimRight directory ''/'' in d = [] \<or> HasPrefix path (d @ ''/''))"

definition added_paths :: "WebhookPushEvent \<Rightarrow> (Commit \<times> string) list" where
  "added_paths pushEvent =
     concat (map (\<lambda>commit. map (Pair commit) (AddedList commit)) (CommitList pushEvent))"

definition authenticated_push ::
  "hook_env \<Rightarrow> request \<Rightarrow> WebhookPushEvent \<Rightarrow> Repository \<Rightarrow> bool" where
  "authenticated_push E req pushEvent repository =
     (\<exists>b found. req_body req = Inr b \<and> Unmarshal E b = Inr pushEvent
        \<and> ObjectKind pushEvent = WebhookPush E
        \<and> FindRepository E (param_id req) = Inr found
        \<and> ComposeRepositoryRelationship E found = Inr repository
        \<and> X_Gitlab_Token req = SecretToken repository
        \<and> Itoa (Project_ID (Project pushEvent)) = ExternalId repository)"

section \<open>store/inbox.go: the inbox summary\<close>

text \<open>A row of the \<open>inbox\<close> table, with the columns the summary queries read.\<close>

record inbox_row =
  receiver_id :: int
  status :: string
  level :: string

record InboxSummary =
  HasUnread :: bool
  HasUnreadError :: bool

text \<open>The two queries \<open>FindInboxSummary\<close> can issue, each with its bound parameter:
  \<open>SELECT EXISTS (SELECT 1 FROM inbox WHERE receiver_id = ? AND status = 'UNREAD')\<close> and the
  same with \<open>AND level = 'ERROR'\<close>.\<close>

datatype inbox_query = ExistsUnread int | ExistsUnreadError int

text \<open>The store as \<open>FindInboxSummary\<close> sees it: the table, and what can go wrong
  (\<open>BeginTx\<close>, the n-th \<open>QueryContext\<close> of the transaction, the n-th \<open>Scan\<close>;
  a \<open>row.Next()\<close> that yields no row shows as the error of the \<open>Scan\<close> after it).\<close>

record store_DB =
  inbox :: "inbox_row list"
  begin_tx_err :: "error option"
  query_err :: "nat \<Rightarrow> error option"
  scan_err :: "nat \<Rightarrow> error option"

definition eval_inbox_query :: "inbox_row list \<Rightarrow> inbox_query \<Rightarrow> bool" where
  "eval_inbox_query rows q =
     (case q of
        ExistsUnread p \<Rightarrow>
          list_ex (\<lambda>r. receiver_id r = p \<and> status r = ''UNREAD'') rows
      | ExistsUnreadError p \<Rightarrow>
          list_ex (\<lambda>r. receiver_id r = p \<and> status r = ''UNREAD'' \<and> level r = ''ERROR'') rows)"

text \<open>\<open>FindInboxSummary\<close>, returning its result and the queries it sent, in order.
  \<open>FormatError\<close> is the store's error wrapper, a function of this repository that is
  not among the source files: it is a parameter.\<close>

definition FindInboxSummary ::
  "(error \<Rightarrow> error) \<Rightarrow> store_DB \<Rightarrow> int \<Rightarrow> (error + InboxSummary) \<times> inbox_query list" where
  "FindInboxSummary FormatError store principalId =
     (case begin_tx_err store of
        Some err \<Rightarrow> (Inl (FormatError err), [])
      | None \<Rightarrow>
         (case query_err store 0 of
            Some err \<Rightarrow> (Inl (FormatError err), [ExistsUnread principalId])
          | None \<Rightarrow>
             (case scan_err store 0 of
                Some err \<Rightarrow> (Inl (FormatError err), [ExistsUnread principalId])
              | None \<Rightarrow>
                 (let hasUnread = eval_inbox_query (inbox store) (ExistsUnread principalId) in
                  if hasUnread then
                    (case query_err store 1 of
                       Some err \<Rightarrow>
                         (Inl (FormatError err),
                          [ExistsUnread principalId, ExistsUnreadError principalId])
                     | None \<Rightarrow>
                        (case scan_err store 1 of
                           Some err \<Rightarrow>
                             (Inl (FormatError err),
                              [ExistsUnread principalId, ExistsUnreadError principalId])
                         | None \<Rightarrow>
                             (Inr \<lparr>HasUnread = hasUnread,
                                   HasUnreadError =
                                     eval_inbox_query (inbox store) (ExistsUnreadError principalId)\<rparr>,
                              [ExistsUnread principalId, ExistsUnreadError principalId])))
                  else
                    (Inr \<lparr>HasUnread = hasUnread, HasUnreadError = False\<rparr>,
                     [ExistsUnread principalId])))))"

section \<open>Example inputs\<close>

text \<open>A set of reserved keywords, for \<open>quoteIdentifier\<close>.\<close>

definition example_reserved :: "string \<Rightarrow> bool" where
  "example_reserved k = (k \<in> {''SELECT'', ''TABLE'', ''FROM''})"

text \<open>Concrete inputs on which the theorems below are instantiated: a driver connected
  to \<open>host=h\<close>, a splitter that cuts a script after each semicolon, a script with one
  statement of each kind, and a server that lists the database \<open>postgres\<close>, names
  \<open>alice\<close> as the owner and accepts every other call.\<close>

definition example_driver :: Driver where
  "example_driver =
     \<lparr>pgInstanceDir = [],
      config = \<lparr>Host = ''h'', Port = [], Username = [], Password = [], Database = [],
                TLSConfig = \<lparr>SslCA = [], SslCert = [], SslKey = []\<rparr>,
                ReadOnly = False, StrictUseDb = False\<rparr>,
      db = ''host=h'', baseDSN = ''host=h'', databaseName = [], strictDatabase = [],
      calls = []\<rparr>"

definition example_split :: "string \<Rightarrow> string list" where
  "example_split s = map (\<lambda>p. p @ '';'') (butlast (Split s (CHR '';'')))"

definition example_script :: string where
  "example_script =
     ''CREATE DATABASE postgres; ALTER DATABASE app OWNER TO bob; '' @ [CHR 0x5C]
     @ ''connect '' @ [DQ] @ ''app'' @ [DQ]
     @ ''; CREATE TABLE t(id INT); INSERT INTO t VALUES (1);''"

definition example_server :: server where
  "example_server tr =
     (case last tr of
        DbQuery h q \<Rightarrow>
          DatabaseRows [Inr \<lparr>name = ''postgres'', encoding = ''UTF8'', collate = ''C''\<rparr>]
      | TxQuery q \<Rightarrow> OwnerRows [Inr ''alice'']
      | _ \<Rightarrow> Done)"


text \<open>For a database whose name holds a blank: the script \<open>CREATE DATABASE "a b";\<close>, a
  server on which the database \<open>a b\<close> exists, so that it refuses to create it again, and a
  server on which \<open>a\<close> exists and \<open>a b\<close> does not.\<close>

definition spaced_script :: string where
  "spaced_script = ''CREATE DATABASE '' @ [DQ] @ ''a b'' @ [DQ] @ '';''"

definition spaced_server :: server where
  "spaced_server tr =
     (case last tr of
        DbQuery h q \<Rightarrow>
          DatabaseRows [Inr \<lparr>name = ''postgres'', encoding = ''UTF8'', collate = ''C''\<rparr>,
                        Inr \<lparr>name = ''a b'', encoding = ''UTF8'', collate = ''C''\<rparr>]
      | DbExec h s args \<Rightarrow>
          if s = spaced_script then Failed (Error (''database '' @ [DQ] @ ''a b'' @ [DQ] @ '' already exists''))
          else Done
      | TxQuery q \<Rightarrow> OwnerRows [Inr ''alice'']
      | _ \<Rightarrow> Done)"

definition short_server :: server where
  "short_server tr =
     (case last tr of
        DbQuery h q \<Rightarrow>
          DatabaseRows [Inr \<lparr>name = ''postgres'', encoding = ''UTF8'', collate = ''C''\<rparr>,
                        Inr \<lparr>name = ''a'', encoding = ''UTF8'', collate = ''C''\<rparr>]
      | TxQuery q \<Rightarrow> OwnerRows [Inr ''alice'']
      | _ \<Rightarrow> Done)"





definition refusing_server :: server where
  "refusing_server tr = Failed (Error ''connection refused'')"

text \<open>For the webhook: a repository with base directory \<open>sql\<close>, a push event of its
  project that adds \<open>sql/0004__add_col.sql\<close> and \<open>sql/README.md\<close>, and an environment that
  knows the repository under the endpoint \<open>ep1\<close>, decodes the body \<open>push\<close> to that event
  and the body \<open>tag\<close> to the same event with another kind, and whose services succeed.\<close>

definition example_repository :: Repository where
  "example_repository =
     \<lparr>repo_Name = ''repo'', SecretToken = ''s3cret'', ExternalId = ''42'',
      BaseDirectory = ''sql'', ProjectId = 7, VCS_InstanceURL = ''https://gitlab.example'',
      VCS_AccessToken = ''token'', VCS_Type = ''GITLAB_SELF_HOST''\<rparr>"

definition example_commit :: Commit where
  "example_commit =
     \<lparr>Commit_ID = ''abc123'', Title = ''Add column'', Message = ''Add a column to t'',
      Timestamp = ''2021-06-01T10:00:00Z'', URL = ''https://gitlab.example/c/abc123'',
      Author_Name = ''dev'', AddedList = [''sql/0004__add_col.sql'', ''sql/README.md'']\<rparr>"

definition example_event :: WebhookPushEvent where
  "example_event =
     \<lparr>ObjectKind = ''push'', Ref = ''refs/heads/main'', AuthorName = ''dev'',
      Project = \<lparr>Project_ID = 42, WebURL = ''https://gitlab.example/p'', FullPath = ''g/p''\<rparr>,
      CommitList = [example_commit]\<rparr>"

definition example_hook_env :: hook_env where
  "example_hook_env =
     \<lparr>Unmarshal = (\<lambda>b. if b = ''push'' then Inr example_event
                        else if b = ''tag'' then Inr (example_event\<lparr>ObjectKind := ''tag_push''\<rparr>)
                        else Inl (Error ''unexpected end of JSON input'')),
      WebhookPush = ''push'',
      is_ENOTFOUND = (\<lambda>err. err = Error ''not found''),
      FindRepository = (\<lambda>endpoint. if endpoint = ''ep1'' then Inr example_repository
                                    else Inl (Error ''not found'')),
      ComposeRepositoryRelationship = Inr,
      ParseMigrationInfo = (\<lambda>filename. Inr \<lparr>mi_Database = ''app'', mi_Description = ''add col''\<rparr>),
      QueryEscape = (\<lambda>s. s),
      gitlab_GET = (\<lambda>instanceURL path token. Inr (Inr ''ALTER TABLE t ADD COLUMN c INT;'')),
      ComposeDatabaseByFind =
        (\<lambda>projectId dbName.
           Inr \<lparr>database_ID = 3, InstanceId = 2, database_ProjectId = projectId,
                Instance_EnvironmentId = 1, Instance_Environment_Name = ''prod''\<rparr>),
      time_Parse = (\<lambda>s. Inr 1622541600),
      CreateIssue = (\<lambda>issues issueCreate creator. Inr \<lparr>Name = issue_Name issueCreate\<rparr>),
      TaskDatabaseSchemaUpdate = ''bb.task.database.schema.update'',
      IssueDatabaseSchemaUpdate = ''bb.issue.database.schema.update'',
      SYSTEM_BOT_ID = 1\<rparr>"

text \<open>A push to the same repository that adds \<open>sqlx/0001__a.sql\<close>, a file of another
  directory whose name starts like the base directory, and an environment that decodes
  every body to that event.\<close>

definition stray_event :: WebhookPushEvent where
  "stray_event =
     example_event\<lparr>CommitList := [example_commit\<lparr>AddedList := [''sqlx/0001__a.sql'']\<rparr>]\<rparr>"

definition stray_hook_env :: hook_env where
  "stray_hook_env = example_hook_env\<lparr>Unmarshal := (\<lambda>b. Inr stray_event)\<rparr>"

text \<open>The same environment, except that the relationships of a repository cannot be
  composed.\<close>

definition broken_hook_env :: hook_env where
  "broken_hook_env =
     example_hook_env\<lparr>ComposeRepositoryRelationship := (\<lambda>r. Inl (Error ''no project''))\<rparr>"

section \<open>Properties of identifier quoting\<close>

lemma foldl_ident_step_NoMatch: "foldl ident_step NoMatch s = NoMatch"
  by (induction s) auto

lemma ReplaceAll_concat:
  "ReplaceAll s old new = concat (map (\<lambda>c. if c = old then new else [c]) s)"
  by (induction s) auto



lemma ident_MatchString_DQ: "\<not> ident_MatchString (DQ # s)"
  by (simp add: ident_MatchString_def ident_first_def is_lower_def is_upper_def
                foldl_ident_step_NoMatch)

lemma quoteIdentifier_eq:
  "quoteIdentifier reserved uu s =
     (if reserved (ToUpper uu s) \<or> \<not> ident_MatchString s then quoted_form s else s)"
  by (simp add: quoteIdentifier_def quoted_form_def ReplaceAll_concat)

lemma length_quoted_form: "length s + 2 \<le> length (quoted_form s)"
proof -
  have "length s \<le> length (concat (map (\<lambda>c. if c = DQ then [DQ, DQ] else [c]) s))"
    by (induction s) auto
  then show ?thesis by (simp add: quoted_form_def)
qed

lemma quoted_form_neq: "quoted_form s \<noteq> s"
  using length_quoted_form [of s] by auto



lemma ident_MatchString_examples:
  "ident_MatchString ''Select''" "ident_MatchString ''plain''"
  "\<not> ident_MatchString [CHR ''a'', DQ, CHR ''b'']"
  by code_simp+




text \<open>C5, as amended. A string that needed quoting is quoted again when \<open>quoteIdentifier\<close>
  is applied to its quoted form: the result is that form between a new pair of double
  quotes, with every double quote in it doubled, and differs from it. Applying
  \<open>quoteIdentifier\<close> twice gives the same as applying it once exactly for the strings that
  need no quoting.\<close>

theorem quoteIdentifier_twice:
  "(reserved (ToUpper uu s) \<or> \<not> ident_MatchString s \<longrightarrow>
      quoteIdentifier reserved uu (quoteIdentifier reserved uu s)
        = quoted_form (quoted_form s)
      \<and> quoteIdentifier reserved uu (quoteIdentifier reserved uu s)
        \<noteq> quoteIdentifier reserved uu s)
   \<and> (quoteIdentifier reserved uu (quoteIdentifier reserved uu s) = quoteIdentifier reserved uu s)
       = (\<not> (reserved (ToUpper uu s) \<or> \<not> ident_MatchString s))"
proof (cases "reserved (ToUpper uu s) \<or> \<not> ident_MatchString s")
  case True
  then have q: "quoteIdentifier reserved uu s = quoted_form s"
    by (simp add: quoteIdentifier_eq)
  have "\<not> ident_MatchString (quoted_form s)"
    by (simp add: quoted_form_def ident_MatchString_DQ)
  then have qq: "quoteIdentifier reserved uu (quoted_form s) = quoted_form (quoted_form s)"
    by (simp add: quoteIdentifier_eq)
  from True q qq quoted_form_neq [of "quoted_form s"] show ?thesis by simp
next
  case False
  then have "quoteIdentifier reserved uu s = s"
    by (simp add: quoteIdentifier_eq)
  with False show ?thesis by simp
qed

theorem quoteIdentifier_twice_witness:
  "\<not> ident_MatchString [CHR ''a'', DQ, CHR ''b'']
   \<and> quoteIdentifier example_reserved id
         (quoteIdentifier example_reserved id [CHR ''a'', DQ, CHR ''b''])
       = [DQ, DQ, DQ, CHR ''a'', DQ, DQ, DQ, DQ, CHR ''b'', DQ, DQ, DQ]"
proof -
  have n: "\<not> ident_MatchString [CHR ''a'', DQ, CHR ''b'']"
    by (rule ident_MatchString_examples)
  from quoteIdentifier_twice [of example_reserved id "[CHR ''a'', DQ, CHR ''b'']"] n
  show ?thesis by (simp add: quoted_form_def)
qed

text \<open>The claim as it was stated fails on the claim's own example: \<open>a"b\<close> needs quoting
  and becomes \<open>"a""b"\<close>, and \<open>quoteIdentifier\<close> applied to \<open>"a""b"\<close> gives
  \<open>"""a""""b"""\<close>, not \<open>"a""b"\<close>.\<close>

theorem quoteIdentifier_not_idempotent_on_quoted:
  "\<not> ident_MatchString [CHR ''a'', DQ, CHR ''b'']
   \<and> quoteIdentifier example_reserved id [CHR ''a'', DQ, CHR ''b'']
       = [DQ, CHR ''a'', DQ, DQ, CHR ''b'', DQ]
   \<and> quoteIdentifier example_reserved id [DQ, CHR ''a'', DQ, DQ, CHR ''b'', DQ]
       = [DQ, DQ, DQ, CHR ''a'', DQ, DQ, DQ, DQ, CHR ''b'', DQ, DQ, DQ]
   \<and> [DQ, DQ, DQ, CHR ''a'', DQ, DQ, DQ, DQ, CHR ''b'', DQ, DQ, DQ]
       \<noteq> [DQ, CHR ''a'', DQ, DQ, CHR ''b'', DQ]"
  by code_simp

section \<open>Properties of \<open>guessDSN\<close> and \<open>Open\<close>\<close>

lemma after_tries_Cons:
  "after_tries srv dsn tr (g # gs) = after_tries srv dsn (tried srv tr (guess_dsn dsn g)) gs"
  by (simp add: after_tries_def)

lemma after_tries_Nil: "after_tries srv dsn tr [] = tr"
  by (simp add: after_tries_def)

lemma try_guesses_found:
  "try_guesses srv dsn gs tr opened = (Some (g, gd), tr', opened') \<Longrightarrow>
   \<exists>k < length gs.
      (\<forall>i < k. \<not> accepts srv (after_tries srv dsn tr (take i gs)) (guess_dsn dsn (gs ! i)))
    \<and> accepts srv (after_tries srv dsn tr (take k gs)) (guess_dsn dsn (gs ! k))
    \<and> g = gs ! k \<and> gd = guess_dsn dsn (gs ! k)
    \<and> tr' = after_tries srv dsn tr (take (Suc k) gs)"
proof (induction gs arbitrary: tr opened)
  case Nil
  then show ?case by simp
next
  case (Cons a gs)
  show ?case
  proof (cases "accepts srv tr (guess_dsn dsn a)")
    case True
    with Cons.prems have "g = a \<and> gd = guess_dsn dsn a \<and> tr' = tr @ [SqlOpen (guess_dsn dsn a), DbPing (guess_dsn dsn a)]"
      by (auto simp: accepts_def Let_def split: option.splits)
    with True show ?thesis
      by (intro exI [of _ 0]) (auto simp: after_tries_def tried_def accepts_def)
  next
    case False
    with Cons.prems have "\<exists>op1. try_guesses srv dsn gs (tried srv tr (guess_dsn dsn a)) op1 = (Some (g, gd), tr', opened')"
      by (auto simp: accepts_def tried_def Let_def split: option.splits)
    then obtain op1 where "try_guesses srv dsn gs (tried srv tr (guess_dsn dsn a)) op1 = (Some (g, gd), tr', opened')"
      by blast
    from Cons.IH [OF this] obtain k where k: "k < length gs"
      "\<forall>i < k. \<not> accepts srv (after_tries srv dsn (tried srv tr (guess_dsn dsn a)) (take i gs)) (guess_dsn dsn (gs ! i))"
      "accepts srv (after_tries srv dsn (tried srv tr (guess_dsn dsn a)) (take k gs)) (guess_dsn dsn (gs ! k))"
      "g = gs ! k" "gd = guess_dsn dsn (gs ! k)"
      "tr' = after_tries srv dsn (tried srv tr (guess_dsn dsn a)) (take (Suc k) gs)"
      by blast
    have "\<forall>i < Suc k. \<not> accepts srv (after_tries srv dsn tr (take i (a # gs))) (guess_dsn dsn ((a # gs) ! i))"
    proof (intro allI impI)
      fix i assume "i < Suc k"
      then show "\<not> accepts srv (after_tries srv dsn tr (take i (a # gs))) (guess_dsn dsn ((a # gs) ! i))"
        using False k(2) by (cases i) (auto simp: after_tries_Cons after_tries_Nil)
    qed
    with k show ?thesis
      by (intro exI [of _ "Suc k"]) (simp add: after_tries_Cons)
  qed
qed

lemma try_guesses_none:
  "try_guesses srv dsn gs tr opened = (None, tr', opened') \<Longrightarrow>
      (\<forall>i < length gs. \<not> accepts srv (after_tries srv dsn tr (take i gs)) (guess_dsn dsn (gs ! i)))
    \<and> tr' = after_tries srv dsn tr gs"
proof (induction gs arbitrary: tr opened)
  case Nil
  then show ?case by (simp add: after_tries_Nil)
next
  case (Cons a gs)
  from Cons.prems have na: "\<not> accepts srv tr (guess_dsn dsn a)"
    by (auto simp: accepts_def Let_def split: option.splits)
  with Cons.prems have "\<exists>op1. try_guesses srv dsn gs (tried srv tr (guess_dsn dsn a)) op1 = (None, tr', opened')"
    by (auto simp: accepts_def tried_def Let_def split: option.splits)
  then obtain op1 where "try_guesses srv dsn gs (tried srv tr (guess_dsn dsn a)) op1 = (None, tr', opened')"
    by blast
  from Cons.IH [OF this] have ih:
    "\<forall>i < length gs. \<not> accepts srv (after_tries srv dsn (tried srv tr (guess_dsn dsn a)) (take i gs)) (guess_dsn dsn (gs ! i))"
    "tr' = after_tries srv dsn (tried srv tr (guess_dsn dsn a)) gs"
    by blast+
  have "\<forall>i < length (a # gs). \<not> accepts srv (after_tries srv dsn tr (take i (a # gs))) (guess_dsn dsn ((a # gs) ! i))"
  proof (intro allI impI)
    fix i assume "i < length (a # gs)"
    then show "\<not> accepts srv (after_tries srv dsn tr (take i (a # gs))) (guess_dsn dsn ((a # gs) ! i))"
      using na ih(1) by (cases i) (auto simp: after_tries_Cons after_tries_Nil)
  qed
  with ih(2) show ?case by (simp add: after_tries_Cons)
qed


lemma try_guesses_first_accepted:
  assumes "try_guesses srv dsn gs tr opened = (found, tr', opened')"
  shows "found = map_option (\<lambda>k. (gs ! k, guess_dsn dsn (gs ! k))) (first_accepted srv dsn tr gs)
       \<and> tr' = after_tries srv dsn tr
                 (take (case first_accepted srv dsn tr gs of Some k \<Rightarrow> Suc k | None \<Rightarrow> length gs) gs)"
proof (cases found)
  case None
  with assms have "\<forall>i < length gs. \<not> accepts srv (after_tries srv dsn tr (take i gs)) (guess_dsn dsn (gs ! i))"
    and t: "tr' = after_tries srv dsn tr gs"
    using try_guesses_none by blast+
  then have "first_accepted srv dsn tr gs = None"
    by (auto simp: first_accepted_def find_None_iff)
  with None t show ?thesis by simp
next
  case (Some p)
  obtain g gd where p: "p = (g, gd)" by (cases p)
  with Some assms have "try_guesses srv dsn gs tr opened = (Some (g, gd), tr', opened')" by simp
  from try_guesses_found [OF this] obtain k where k: "k < length gs"
      "\<forall>i < k. \<not> accepts srv (after_tries srv dsn tr (take i gs)) (guess_dsn dsn (gs ! i))"
      "accepts srv (after_tries srv dsn tr (take k gs)) (guess_dsn dsn (gs ! k))"
      "g = gs ! k" "gd = guess_dsn dsn (gs ! k)"
      "tr' = after_tries srv dsn tr (take (Suc k) gs)"
    by blast
  have "first_accepted srv dsn tr gs = Some k"
    unfolding first_accepted_def find_Some_iff
    using k(1,2,3) by (intro exI [of _ k]) auto
  with Some p k show ?thesis by simp
qed

lemma guessDSN_first_accepted:
  "guesses_for database =
     (if database = [] then [[], ''bytebase'', ''postgres'', ''template1''] else [database])
   \<and> fst (guessDSN srv range_order username password hostname port database sslCA sslCert sslKey tr)
       = (case first_accepted srv
                 (base_dsn range_order username password hostname port sslCA sslCert sslKey)
                 tr (guesses_for database) of
            Some k \<Rightarrow>
              Inr (guesses_for database ! k,
                   guess_dsn (base_dsn range_order username password hostname port sslCA sslCert sslKey)
                     (guesses_for database ! k))
          | None \<Rightarrow>
              Inl (if database \<noteq> [] then
                     Errorf ''cannot connecting %q, make sure the connection info is correct and the database exists''
                       [ArgString database]
                   else
                     Errorf ''cannot connecting instance, make sure the connection info is correct'' []))
   \<and> (\<exists>closed.
        snd (guessDSN srv range_order username password hostname port database sslCA sslCert sslKey tr)
          = after_tries srv (base_dsn range_order username password hostname port sslCA sslCert sslKey) tr
              (take (case first_accepted srv
                            (base_dsn range_order username password hostname port sslCA sslCert sslKey)
                            tr (guesses_for database) of
                       Some k \<Rightarrow> Suc k | None \<Rightarrow> length (guesses_for database))
                 (guesses_for database))
            @ map DbClose closed)"
proof -
  obtain found tr' opened' where t:
    "try_guesses srv (base_dsn range_order username password hostname port sslCA sslCert sslKey)
       (guesses_for database) tr [] = (found, tr', opened')"
    by (metis prod_cases3)
  note fa = try_guesses_first_accepted [OF t]
  have g: "guessDSN srv range_order username password hostname port database sslCA sslCert sslKey tr
      = (case found of
           Some (guess, gd) \<Rightarrow> Inr (guess, gd)
         | None \<Rightarrow> Inl (if database \<noteq> [] then
                     Errorf ''cannot connecting %q, make sure the connection info is correct and the database exists''
                       [ArgString database]
                   else
                     Errorf ''cannot connecting instance, make sure the connection info is correct'' []),
         tr' @ map DbClose opened')"
    by (simp add: guessDSN_def t Let_def split: option.splits)
  have 1: "guesses_for database =
     (if database = [] then [[], ''bytebase'', ''postgres'', ''template1''] else [database])"
    by (simp add: guesses_for_def)
  show ?thesis
    apply (intro conjI)
      apply (rule 1)
     apply (simp only: g fst_conv)
     apply (simp add: fa split: option.splits)
    apply (simp only: g snd_conv)
    apply (rule exI [of _ opened'])
    apply (simp add: fa)
    done
qed


lemma Open_guessDSN:
  "\<not> tls_pair_mismatch cfg \<Longrightarrow>
   (case guessDSN srv range_order (Username cfg) (Password cfg) (Host cfg) (Port cfg)
           (Database cfg) (SslCA (TLSConfig cfg)) (SslCert (TLSConfig cfg))
           (SslKey (TLSConfig cfg)) (calls driver) of
      (Inl err, tr) \<Rightarrow> Open srv range_order cfg driver = (Some err, driver\<lparr>calls := tr\<rparr>)
    | (Inr (guessed, gd), tr) \<Rightarrow>
        prefix tr (calls (snd (Open srv range_order cfg driver)))
        \<and> databaseName (snd (Open srv range_order cfg driver)) = guessed
        \<and> prefix gd (baseDSN (snd (Open srv range_order cfg driver))))"
  by (auto simp: Open_def tls_pair_mismatch_def call_server_def Let_def
           split: sum.splits option.splits prod.splits)

text \<open>C3. Without a database name the candidates are, in this order, no database name,
  \<open>bytebase\<close>, \<open>postgres\<close> and \<open>template1\<close>; with a name, that database alone. Whatever the
  server answers, \<open>guessDSN\<close> tries the candidates in that order, one after the other, and
  stops at the first whose open and ping both succeed: it returns that candidate with its
  connection string, and an error when no candidate is accepted; the calls it made are those
  of the candidates tried, followed by the deferred closes. \<open>Open\<close>, once the TLS pair is
  consistent, passes the configured database name to \<open>guessDSN\<close>: it returns the error of
  \<open>guessDSN\<close>, or goes on with the candidate found as the driver's database name.\<close>

theorem Open_guesses_in_order:
  "guesses_for database =
     (if database = [] then [[], ''bytebase'', ''postgres'', ''template1''] else [database])
   \<and> fst (guessDSN srv range_order username password hostname port database sslCA sslCert sslKey tr)
       = (case first_accepted srv
                 (base_dsn range_order username password hostname port sslCA sslCert sslKey)
                 tr (guesses_for database) of
            Some k \<Rightarrow>
              Inr (guesses_for database ! k,
                   guess_dsn (base_dsn range_order username password hostname port sslCA sslCert sslKey)
                     (guesses_for database ! k))
          | None \<Rightarrow>
              Inl (if database \<noteq> [] then
                     Errorf ''cannot connecting %q, make sure the connection info is correct and the database exists''
                       [ArgString database]
                   else
                     Errorf ''cannot connecting instance, make sure the connection info is correct'' []))
   \<and> (\<exists>closed.
        snd (guessDSN srv range_order username password hostname port database sslCA sslCert sslKey tr)
          = after_tries srv (base_dsn range_order username password hostname port sslCA sslCert sslKey) tr
              (take (case first_accepted srv
                            (base_dsn range_order username password hostname port sslCA sslCert sslKey)
                            tr (guesses_for database) of
                       Some k \<Rightarrow> Suc k | None \<Rightarrow> length (guesses_for database))
                 (guesses_for database))
            @ map DbClose closed)
   \<and> (\<not> tls_pair_mismatch cfg \<longrightarrow>
        (case guessDSN srv range_order (Username cfg) (Password cfg) (Host cfg) (Port cfg)
                (Database cfg) (SslCA (TLSConfig cfg)) (SslCert (TLSConfig cfg))
                (SslKey (TLSConfig cfg)) (calls driver) of
           (Inl err, tr') \<Rightarrow> Open srv range_order cfg driver = (Some err, driver\<lparr>calls := tr'\<rparr>)
         | (Inr (guessed, gd), tr') \<Rightarrow>
             prefix tr' (calls (snd (Open srv range_order cfg driver)))
             \<and> databaseName (snd (Open srv range_order cfg driver)) = guessed
             \<and> prefix gd (baseDSN (snd (Open srv range_order cfg driver)))))"
  using guessDSN_first_accepted
          [of database srv range_order username password hostname port sslCA sslCert sslKey tr]
        Open_guessDSN [of cfg srv range_order driver]
  by blast

lemma guess_example_first_accepted:
  "first_accepted
     (\<lambda>tr. case last tr of
              DbPing d \<Rightarrow> if d = ''host=h dbname=postgres'' then Done
                          else Failed (Error ''refused'')
            | _ \<Rightarrow> Done)
     (base_dsn id [] [] ''h'' [] [] [] []) [] (guesses_for []) = Some 2"
  by code_simp

lemma guess_example_candidate:
  "guesses_for [] ! 2 = ''postgres''"
  "guess_dsn (base_dsn id [] [] ''h'' [] [] [] []) (guesses_for [] ! 2) = ''host=h dbname=postgres''"
  by code_simp+

lemma guess_example_run:
  "guessDSN
     (\<lambda>tr. case last tr of
              DbPing d \<Rightarrow> if d = ''host=h dbname=postgres'' then Done
                          else Failed (Error ''refused'')
            | _ \<Rightarrow> Done)
     id [] [] ''h'' [] [] [] [] [] []
   = (Inr (''postgres'', ''host=h dbname=postgres''),
      [SqlOpen ''host=h'', DbPing ''host=h'',
       SqlOpen ''host=h dbname=bytebase'', DbPing ''host=h dbname=bytebase'',
       SqlOpen ''host=h dbname=postgres'', DbPing ''host=h dbname=postgres'',
       DbClose ''host=h dbname=postgres'', DbClose ''host=h dbname=bytebase'',
       DbClose ''host=h''])"
  by code_simp

theorem Open_guesses_in_order_witness:
  "fst (guessDSN
          (\<lambda>tr. case last tr of
                   DbPing d \<Rightarrow> if d = ''host=h dbname=postgres'' then Done
                               else Failed (Error ''refused'')
                 | _ \<Rightarrow> Done)
          id [] [] ''h'' [] [] [] [] [] [])
     = Inr (''postgres'', ''host=h dbname=postgres'')
   \<and> \<not> tls_pair_mismatch
         \<lparr>Host = ''h'', Port = [], Username = [], Password = [], Database = [],
          TLSConfig = \<lparr>SslCA = [], SslCert = [], SslKey = []\<rparr>,
          ReadOnly = False, StrictUseDb = False\<rparr>
   \<and> databaseName (snd (Open
         (\<lambda>tr. case last tr of
                  DbPing d \<Rightarrow> if d = ''host=h dbname=postgres'' then Done
                              else Failed (Error ''refused'')
                | _ \<Rightarrow> Done)
         id
         \<lparr>Host = ''h'', Port = [], Username = [], Password = [], Database = [],
          TLSConfig = \<lparr>SslCA = [], SslCert = [], SslKey = []\<rparr>,
          ReadOnly = False, StrictUseDb = False\<rparr>
         \<lparr>pgInstanceDir = [],
          config = \<lparr>Host = [], Port = [], Username = [], Password = [], Database = [],
                    TLSConfig = \<lparr>SslCA = [], SslCert = [], SslKey = []\<rparr>,
                    ReadOnly = False, StrictUseDb = False\<rparr>,
          db = [], baseDSN = [], databaseName = [], strictDatabase = [], calls = []\<rparr>))
     = ''postgres''"
proof -
  have t: "\<not> tls_pair_mismatch
         \<lparr>Host = ''h'', Port = [], Username = [], Password = [], Database = [],
          TLSConfig = \<lparr>SslCA = [], SslCert = [], SslKey = []\<rparr>,
          ReadOnly = False, StrictUseDb = False\<rparr>"
    by (simp add: tls_pair_mismatch_def)
  from Open_guesses_in_order
         [of "[]"
             "\<lambda>tr. case last tr of
                     DbPing d \<Rightarrow> if d = ''host=h dbname=postgres'' then Done
                                 else Failed (Error ''refused'')
                   | _ \<Rightarrow> Done"
             id "[]" "[]" "''h''" "[]" "[]" "[]" "[]" "[]"
             "\<lparr>Host = ''h'', Port = [], Username = [], Password = [], Database = [],
               TLSConfig = \<lparr>SslCA = [], SslCert = [], SslKey = []\<rparr>,
               ReadOnly = False, StrictUseDb = False\<rparr>"
             "\<lparr>pgInstanceDir = [],
               config = \<lparr>Host = [], Port = [], Username = [], Password = [], Database = [],
                         TLSConfig = \<lparr>SslCA = [], SslCert = [], SslKey = []\<rparr>,
                         ReadOnly = False, StrictUseDb = False\<rparr>,
               db = [], baseDSN = [], databaseName = [], strictDatabase = [], calls = []\<rparr>"]
       t
  show ?thesis
    by (simp add: guess_example_first_accepted guess_example_candidate guess_example_run)
qed

section \<open>Properties of \<open>Execute\<close>\<close>

lemma call_server_simps [simp]:
  "fst (call_server srv c d) = srv (calls d @ [c])"
  "snd (call_server srv c d) = d\<lparr>calls := calls d @ [c]\<rparr>"
  by (simp_all add: call_server_def)

lemma call_server_eq:
  "call_server srv c d = (r, d') \<longleftrightarrow> r = srv (calls d @ [c]) \<and> d' = d\<lparr>calls := calls d @ [c]\<rparr>"
  by (auto simp: call_server_def)

lemma getDatabases_state:
  "getDatabases srv d = (r, d') \<Longrightarrow> d' = d\<lparr>calls := calls d @ [DbQuery (db d) getDatabasesQuery]\<rparr>"
  by (auto simp: getDatabases_def call_server_def split: reply.splits)

lemma switchDatabase_state:
  "switchDatabase srv n d = (r, d') \<Longrightarrow>
     (r \<noteq> None \<and> (d' = d\<lparr>calls := calls d @ [DbClose (db d)]\<rparr>
        \<or> d' = d\<lparr>calls := calls d @ [DbClose (db d), SqlOpen (baseDSN d @ '' dbname='' @ n)]\<rparr>))
   \<or> (r = None \<and> d' = d\<lparr>calls := calls d @ [DbClose (db d), SqlOpen (baseDSN d @ '' dbname='' @ n)],
                         db := baseDSN d @ '' dbname='' @ n, databaseName := n\<rparr>)"
  by (auto simp: switchDatabase_def call_server_def Let_def split: option.splits)

lemma GetDbConnection_state:
  "GetDbConnection srv n d = (r, d') \<Longrightarrow>
     ((\<exists>e. r = Inl e) \<and> (d' = d\<lparr>calls := calls d @ [DbClose (db d)]\<rparr>
        \<or> d' = d\<lparr>calls := calls d @ [DbClose (db d), SqlOpen (baseDSN d @ '' dbname='' @ n)]\<rparr>))
   \<or> (r = Inr (baseDSN d @ '' dbname='' @ n)
       \<and> d' = d\<lparr>calls := calls d @ [DbClose (db d), SqlOpen (baseDSN d @ '' dbname='' @ n)],
                         db := baseDSN d @ '' dbname='' @ n, databaseName := n\<rparr>)"
  by (auto simp: GetDbConnection_def split: prod.splits option.splits dest!: switchDatabase_state)

lemma Execute_f_calls:
  assumes "Execute_f srv uf s (d, rem) = (r, d', rem')"
  shows "\<exists>new. calls d' = calls d @ new \<and> (\<forall>c \<in> set new. \<not> is_tx_call c)"
  using assms
  by (auto simp: Execute_f_def Let_def call_server_eq
           split: if_splits prod.splits sum.splits
           dest!: getDatabases_state GetDbConnection_state)

lemma Execute_f_remaining:
  assumes "Execute_f srv uf s (d, rem) = (None, d', rem')"
  shows "rem' = rem @ filter (\<lambda>stmt. bucket_of stmt = Remaining) [TrimLeft s [CHR '' '', CHR 0x09]]"
  using assms
  by (auto simp: Execute_f_def Let_def bucket_of_def
           split: if_splits prod.splits sum.splits)

lemma ApplyMultiStatements_calls:
  "ApplyMultiStatements wrap ss (Execute_f srv uf) (d, rem) = (r, d', rem') \<Longrightarrow>
   \<exists>new. calls d' = calls d @ new \<and> (\<forall>c \<in> set new. \<not> is_tx_call c)"
proof (induction ss arbitrary: d rem)
  case Nil
  then show ?case by simp
next
  case (Cons s ss)
  obtain r1 d1 rem1 where f: "Execute_f srv uf s (d, rem) = (r1, d1, rem1)"
    by (metis prod_cases3)
  from Execute_f_calls [OF f] obtain new1 where n1: "calls d1 = calls d @ new1" "\<forall>c \<in> set new1. \<not> is_tx_call c"
    by blast
  show ?case
  proof (cases r1)
    case None
    with Cons.prems f have "ApplyMultiStatements wrap ss (Execute_f srv uf) (d1, rem1) = (r, d', rem')"
      by simp
    from Cons.IH [OF this] obtain new2 where "calls d' = calls d1 @ new2" "\<forall>c \<in> set new2. \<not> is_tx_call c"
      by blast
    with n1 show ?thesis by (intro exI [of _ "new1 @ new2"]) auto
  next
    case (Some e)
    with Cons.prems f have "d' = d1" by simp
    with n1 show ?thesis by blast
  qed
qed

lemma ApplyMultiStatements_remaining:
  "ApplyMultiStatements wrap ss (Execute_f srv uf) (d, rem) = (None, d', rem') \<Longrightarrow>
   rem' = rem @ filter (\<lambda>stmt. bucket_of stmt = Remaining)
                  (map (\<lambda>stmt. TrimLeft stmt [CHR '' '', CHR 0x09]) ss)"
proof (induction ss arbitrary: d rem)
  case Nil
  then show ?case by simp
next
  case (Cons s ss)
  obtain r1 d1 rem1 where f: "Execute_f srv uf s (d, rem) = (r1, d1, rem1)"
    by (metis prod_cases3)
  with Cons.prems have r1: "r1 = None"
    by (cases r1) auto
  with Cons.prems f have "ApplyMultiStatements wrap ss (Execute_f srv uf) (d1, rem1) = (None, d', rem')"
    by simp
  from Cons.IH [OF this] Execute_f_remaining [OF f [unfolded r1]] show ?case by simp
qed


lemma getCurrentDatabaseOwner_state:
  "getCurrentDatabaseOwner srv d = (r, d') \<Longrightarrow>
     d' = d\<lparr>calls := calls d @ [TxQuery currentDatabaseOwnerQuery]\<rparr>"
  by (auto simp: getCurrentDatabaseOwner_def call_server_def Let_def
           split: reply.splits sum.splits if_splits)

lemma getCurrentDatabaseOwner_Inr:
  "getCurrentDatabaseOwner srv d = (Inr owner, d') \<Longrightarrow>
     owner \<noteq> []
     \<and> scan_owner (case srv (calls d @ [TxQuery currentDatabaseOwnerQuery]) of
                      OwnerRows rows \<Rightarrow> rows | _ \<Rightarrow> []) [] = Inr owner"
  by (auto simp: getCurrentDatabaseOwner_def call_server_def Let_def
           split: reply.splits sum.splits if_splits)

lemma Execute_in_tx_None:
  assumes "Execute_in_tx srv rem d = (None, d')"
  shows "\<exists>owner. owner \<noteq> []
          \<and> scan_owner (case srv (calls d @ [TxQuery currentDatabaseOwnerQuery]) of
                           OwnerRows rows \<Rightarrow> rows | _ \<Rightarrow> []) [] = Inr owner
          \<and> d' = d\<lparr>calls := calls d @ [TxQuery currentDatabaseOwnerQuery,
                                         TxExec (''SET LOCAL ROLE '' @ owner),
                                         TxExec (Join rem [CHR 0x0A])]\<rparr>"
proof -
  from assms obtain owner d1 where o: "getCurrentDatabaseOwner srv d = (Inr owner, d1)"
    by (auto simp: Execute_in_tx_def split: prod.splits sum.splits)
  note s = getCurrentDatabaseOwner_state [OF o]
  from assms o s have "d' = d\<lparr>calls := calls d @ [TxQuery currentDatabaseOwnerQuery,
                                         TxExec (''SET LOCAL ROLE '' @ owner),
                                         TxExec (Join rem [CHR 0x0A])]\<rparr>"
    by (auto simp: Execute_in_tx_def call_server_def Let_def split: option.splits)
  with getCurrentDatabaseOwner_Inr [OF o] show ?thesis by blast
qed

lemma reply_error_Some: "reply_error r = Some e \<longleftrightarrow> r = Failed e"
  by (cases r) (auto simp: reply_error_def)

lemma Execute_in_tx_Some:
  assumes "Execute_in_tx srv rem d = (Some err, d')"
  shows "(\<exists>new. d' = d\<lparr>calls := calls d @ new\<rparr> \<and> new \<noteq> [] \<and> (\<forall>c \<in> set new. is_tx_call c)
              \<and> TxCommit \<notin> set new)
       \<and> (fst (getCurrentDatabaseOwner srv d) = Inl err
          \<or> (\<exists>owner. fst (getCurrentDatabaseOwner srv d) = Inr owner
                \<and> (srv (calls d @ [TxQuery currentDatabaseOwnerQuery,
                                   TxExec (''SET LOCAL ROLE '' @ owner)]) = Failed err
                   \<or> srv (calls d @ [TxQuery currentDatabaseOwnerQuery,
                                   TxExec (''SET LOCAL ROLE '' @ owner),
                                   TxExec (Join rem [CHR 0x0A])]) = Failed err)))"
proof -
  obtain ro d1 where o: "getCurrentDatabaseOwner srv d = (ro, d1)"
    by (cases "getCurrentDatabaseOwner srv d")
  note s = getCurrentDatabaseOwner_state [OF o]
  show ?thesis
  proof (cases ro)
    case (Inl e)
    with assms o have "err = e" "d' = d1"
      by (auto simp: Execute_in_tx_def)
    with Inl o s show ?thesis
      by (intro conjI exI [of _ "[TxQuery currentDatabaseOwnerQuery]"]) auto
  next
    case (Inr owner)
    let ?set = "TxExec (''SET LOCAL ROLE '' @ owner)"
    let ?run = "TxExec (Join rem [CHR 0x0A])"
    show ?thesis
    proof (cases "reply_error (srv (calls d1 @ [?set]))")
      case (Some e)
      with assms o Inr have "err = e" "d' = d1\<lparr>calls := calls d1 @ [?set]\<rparr>"
        by (auto simp: Execute_in_tx_def call_server_def Let_def)
      with Some Inr o s show ?thesis
        by (intro conjI exI [of _ "[TxQuery currentDatabaseOwnerQuery, ?set]"])
           (auto simp: reply_error_Some)
    next
      case None
      with assms o Inr have "reply_error (srv (calls d1 @ [?set, ?run])) = Some err"
        "d' = d1\<lparr>calls := calls d1 @ [?set, ?run]\<rparr>"
        by (auto simp: Execute_in_tx_def call_server_def Let_def)
      with None Inr o s show ?thesis
        by (intro conjI exI [of _ "[TxQuery currentDatabaseOwnerQuery, ?set, ?run]"])
           (auto simp: reply_error_Some)
    qed
  qed
qed

lemma Execute_None:
  assumes "Execute srv split wrap uf statement d = (None, d')"
  shows "\<exists>pre. (\<forall>c \<in> set pre. \<not> is_tx_call c)
          \<and> (if remaining_statements split statement = [] then calls d' = calls d @ pre
              else \<exists>h owner. owner \<noteq> []
                   \<and> scan_owner (case srv (calls d @ pre @ [DbBeginTx h, TxQuery currentDatabaseOwnerQuery]) of
                           OwnerRows rows \<Rightarrow> rows | _ \<Rightarrow> []) [] = Inr owner
                   \<and> calls d' = calls d @ pre @
                       [DbBeginTx h, TxQuery currentDatabaseOwnerQuery,
                        TxExec (''SET LOCAL ROLE '' @ owner),
                        TxExec (Join (remaining_statements split statement) [CHR 0x0A]),
                        TxCommit, TxRollback])"
proof -
  obtain r1 d1 rem where a: "ApplyMultiStatements wrap (split statement) (Execute_f srv uf) (d, []) = (r1, d1, rem)"
    by (metis prod_cases3)
  with assms have r1: "r1 = None"
    by (cases r1) (auto simp: Execute_def)
  from ApplyMultiStatements_calls [OF a] obtain pre where pre: "calls d1 = calls d @ pre" "\<forall>c \<in> set pre. \<not> is_tx_call c"
    by blast
  from ApplyMultiStatements_remaining [OF a [unfolded r1]]
  have rem: "rem = remaining_statements split statement"
    by (simp add: remaining_statements_def trimmed_statements_def)
  show ?thesis
  proof (cases "rem = []")
    case True
    with assms a r1 have "d' = d1" by (simp add: Execute_def)
    with pre True rem show ?thesis by auto
  next
    case False
    let ?dB = "d1\<lparr>calls := calls d1 @ [DbBeginTx (db d1)]\<rparr>"
    from assms a r1 False obtain d2 where
      t: "Execute_in_tx srv rem ?dB = (None, d2)" and
      d': "d' = d2\<lparr>calls := calls d2 @ [TxCommit, TxRollback]\<rparr>"
      by (auto simp: Execute_def call_server_def Let_def split: option.splits prod.splits)
    from Execute_in_tx_None [OF t] obtain owner where ow: "owner \<noteq> []"
      "scan_owner (case srv (calls ?dB @ [TxQuery currentDatabaseOwnerQuery]) of
                           OwnerRows rows \<Rightarrow> rows | _ \<Rightarrow> []) [] = Inr owner"
      "d2 = ?dB\<lparr>calls := calls ?dB @ [TxQuery currentDatabaseOwnerQuery,
                                         TxExec (''SET LOCAL ROLE '' @ owner),
                                         TxExec (Join rem [CHR 0x0A])]\<rparr>"
      by blast
    from ow d' pre rem False show ?thesis
      by (intro exI [of _ pre]) (auto intro!: exI [of _ "db d1"] exI [of _ owner])
  qed
qed


lemma switchDatabase_None:
  assumes "fst (switchDatabase srv n d) = None"
  shows "snd (switchDatabase srv n d)
       = d\<lparr>calls := calls d @ [DbClose (db d), SqlOpen (baseDSN d @ '' dbname='' @ n)],
           db := baseDSN d @ '' dbname='' @ n, databaseName := n\<rparr>"
proof -
  obtain r d' where e: "switchDatabase srv n d = (r, d')" by (cases "switchDatabase srv n d")
  with assms have "r = None" by simp
  with switchDatabase_state [OF e] e show ?thesis by simp
qed

lemma Execute_f_bucket:
  "Execute_f srv uf stmt0 (d, rem) =
    (let stmt = TrimLeft stmt0 [CHR '' '', CHR 0x09];
         looked = d\<lparr>calls := calls d @ [DbQuery (db d) getDatabasesQuery]\<rparr>
     in case bucket_of stmt of
          CreateDatabase \<Rightarrow>
            (case fst (getDatabases srv d) of
               Inl err \<Rightarrow> (Some err, looked, rem)
             | Inr databases \<Rightarrow>
                (case getDatabaseInCreateDatabaseStatement uf stmt of
                   Inl err \<Rightarrow> (Some err, looked, rem)
                 | Inr n \<Rightarrow>
                     if n \<in> name ` set databases then (None, looked, rem)
                     else (reply_error (srv (calls looked @ [DbExec (db d) stmt []])),
                           looked\<lparr>calls := calls looked @ [DbExec (db d) stmt []]\<rparr>, rem)))
        | AlterDatabaseOwner \<Rightarrow>
            (reply_error (srv (calls d @ [DbExec (db d) stmt []])),
             d\<lparr>calls := calls d @ [DbExec (db d) stmt []]\<rparr>, rem)
        | Connect \<Rightarrow>
            (case Split stmt DQ of
               [a, n, b] \<Rightarrow> (fst (switchDatabase srv n d), snd (switchDatabase srv n d), rem)
             | _ \<Rightarrow> (Some (Errorf ''invalid statement %q'' [ArgString stmt]), d, rem))
        | Remaining \<Rightarrow> (None, d, rem @ [stmt]))"
proof -
  let ?stmt = "TrimLeft stmt0 [CHR '' '', CHR 0x09]"
  obtain r d1 where g: "getDatabases srv d = (r, d1)" by (cases "getDatabases srv d")
  note gs = getDatabases_state [OF g]
  consider (c) "bucket_of ?stmt = CreateDatabase" | (a) "bucket_of ?stmt = AlterDatabaseOwner"
    | (k) "bucket_of ?stmt = Connect" | (r) "bucket_of ?stmt = Remaining"
    by (cases "bucket_of ?stmt") auto
  then show ?thesis
  proof cases
    case c
    then have p: "HasPrefix ?stmt ''CREATE DATABASE ''"
      by (auto simp: bucket_of_def split: if_splits)
    show ?thesis
      using c p g gs
      by (auto simp: Execute_f_def Let_def call_server_def list_ex_iff
               split: sum.splits)
  next
    case a
    then have p: "\<not> HasPrefix ?stmt ''CREATE DATABASE ''"
      "HasPrefix ?stmt ''ALTER DATABASE'' \<and> Contains ?stmt '' OWNER TO ''"
      by (auto simp: bucket_of_def split: if_splits)
    show ?thesis
      using a p by (simp add: Execute_f_def Let_def call_server_def)
  next
    case k
    then have p: "\<not> HasPrefix ?stmt ''CREATE DATABASE ''"
      "\<not> (HasPrefix ?stmt ''ALTER DATABASE'' \<and> Contains ?stmt '' OWNER TO '')"
      "HasPrefix ?stmt (CHR 0x5C # ''connect '')"
      by (auto simp: bucket_of_def split: if_splits)
    show ?thesis
    proof (cases "length (Split ?stmt DQ) = 3")
      case True
      then obtain x n y where s: "Split ?stmt DQ = [x, n, y]"
        by (auto simp: length_Suc_conv numeral_3_eq_3)
      show ?thesis
        using k p s
        by (auto simp: Execute_f_def Let_def GetDbConnection_def split: prod.splits option.splits)
    next
      case False
      then have "(case Split ?stmt DQ of
               [a, n, b] \<Rightarrow> (fst (switchDatabase srv n d), snd (switchDatabase srv n d), rem)
             | _ \<Rightarrow> (Some (Errorf ''invalid statement %q'' [ArgString ?stmt]), d, rem))
             = (Some (Errorf ''invalid statement %q'' [ArgString ?stmt]), d, rem)"
        by (auto split: list.splits)
      moreover from False k p have "Execute_f srv uf stmt0 (d, rem)
             = (Some (Errorf ''invalid statement %q'' [ArgString ?stmt]), d, rem)"
        by (auto simp: Execute_f_def Let_def)
      ultimately show ?thesis
        using k by (simp only: Let_def bucket.case)
    qed
  next
    case r
    then have p: "\<not> HasPrefix ?stmt ''CREATE DATABASE ''"
      "\<not> (HasPrefix ?stmt ''ALTER DATABASE'' \<and> Contains ?stmt '' OWNER TO '')"
      "\<not> HasPrefix ?stmt (CHR 0x5C # ''connect '')"
      by (auto simp: bucket_of_def split: if_splits)
    show ?thesis
      using r p by (auto simp: Execute_f_def Let_def)
  qed
qed

lemma Execute_calls_shape:
  assumes "Execute srv split wrap uf statement d = (r, d')"
  shows "\<exists>pre tx. calls d' = calls d @ pre @ tx
            \<and> (\<forall>c \<in> set pre. \<not> is_tx_call c) \<and> (\<forall>c \<in> set tx. is_tx_call c)"
proof -
  obtain r1 d1 rem where a: "ApplyMultiStatements wrap (split statement) (Execute_f srv uf) (d, []) = (r1, d1, rem)"
    by (metis prod_cases3)
  from ApplyMultiStatements_calls [OF a] obtain pre where pre: "calls d1 = calls d @ pre" "\<forall>c \<in> set pre. \<not> is_tx_call c"
    by blast
  let ?dB = "d1\<lparr>calls := calls d1 @ [DbBeginTx (db d1)]\<rparr>"
  obtain r2 d2 where t: "Execute_in_tx srv rem ?dB = (r2, d2)"
    by (cases "Execute_in_tx srv rem ?dB")
  have "\<exists>tx. calls d' = calls d1 @ tx \<and> (\<forall>c \<in> set tx. is_tx_call c)"
  proof (cases "r1 = None \<and> rem \<noteq> [] \<and> reply_error (srv (calls d1 @ [DbBeginTx (db d1)])) = None")
    case False
    with assms a have "d' = d1 \<or> d' = ?dB"
      by (auto simp: Execute_def call_server_def Let_def split: option.splits if_splits)
    then show ?thesis
      by (auto intro: exI [of _ "[]"] exI [of _ "[DbBeginTx (db d1)]"])
  next
    case True
    show ?thesis
    proof (cases r2)
      case None
      from Execute_in_tx_None [OF t [unfolded None]] obtain owner where
        "d2 = ?dB\<lparr>calls := calls ?dB @ [TxQuery currentDatabaseOwnerQuery,
                                         TxExec (''SET LOCAL ROLE '' @ owner),
                                         TxExec (Join rem [CHR 0x0A])]\<rparr>"
        by blast
      moreover from assms a True t None have "d' = d2\<lparr>calls := calls d2 @ [TxCommit, TxRollback]\<rparr>"
        by (auto simp: Execute_def call_server_def Let_def)
      ultimately show ?thesis
        by (intro exI [of _ "[DbBeginTx (db d1), TxQuery currentDatabaseOwnerQuery,
                                         TxExec (''SET LOCAL ROLE '' @ owner),
                                         TxExec (Join rem [CHR 0x0A]), TxCommit, TxRollback]"]) simp
    next
      case (Some e)
      from Execute_in_tx_Some [OF t [unfolded Some]] obtain new where
        "d2 = ?dB\<lparr>calls := calls ?dB @ new\<rparr>" "\<forall>c \<in> set new. is_tx_call c"
        by blast
      moreover from assms a True t Some have "d' = d2\<lparr>calls := calls d2 @ [TxRollback]\<rparr>"
        by (auto simp: Execute_def call_server_def Let_def)
      ultimately show ?thesis
        by (intro exI [of _ "DbBeginTx (db d1) # new @ [TxRollback]"]) simp
    qed
  qed
  with pre show ?thesis by auto
qed

text \<open>The buckets of \<open>Execute\<close>. \<open>Execute\<close> handles each statement of the split script,
  after dropping its leading blanks and tabs, by its bucket. A \<open>CREATE DATABASE \<close> statement
  makes the driver list the databases and, when the name that
  \<open>getDatabaseInCreateDatabaseStatement\<close> reads from the statement is among them, do nothing
  more; otherwise it is executed on the handle, outside a transaction. An \<open>ALTER DATABASE\<close>
  statement containing \<open> OWNER TO \<close> is executed on the handle. A \<open>\connect \<close> statement with
  one double-quoted name switches the driver to that database: the handle is closed and one
  on the named database is opened. Any other statement is only appended to the remaining
  ones. In every run the calls made while the statements are handled are outside a
  transaction, and they come before every call of the transaction. In a run that returns no
  error there is no transaction when nothing remains; otherwise the run ends with one
  transaction that reads the owner of the current database, issues \<open>SET LOCAL ROLE\<close> with
  that owner, runs all remaining statements as one text, and commits.\<close>

theorem Execute_partitions_statements:
  "Execute_f srv uf stmt0 (d, rem) =
    (let stmt = TrimLeft stmt0 [CHR '' '', CHR 0x09];
         looked = d\<lparr>calls := calls d @ [DbQuery (db d) getDatabasesQuery]\<rparr>
     in case bucket_of stmt of
          CreateDatabase \<Rightarrow>
            (case fst (getDatabases srv d) of
               Inl err \<Rightarrow> (Some err, looked, rem)
             | Inr databases \<Rightarrow>
                (case getDatabaseInCreateDatabaseStatement uf stmt of
                   Inl err \<Rightarrow> (Some err, looked, rem)
                 | Inr n \<Rightarrow>
                     if n \<in> name ` set databases then (None, looked, rem)
                     else (reply_error (srv (calls looked @ [DbExec (db d) stmt []])),
                           looked\<lparr>calls := calls looked @ [DbExec (db d) stmt []]\<rparr>, rem)))
        | AlterDatabaseOwner \<Rightarrow>
            (reply_error (srv (calls d @ [DbExec (db d) stmt []])),
             d\<lparr>calls := calls d @ [DbExec (db d) stmt []]\<rparr>, rem)
        | Connect \<Rightarrow>
            (case Split stmt DQ of
               [a, n, b] \<Rightarrow> (fst (switchDatabase srv n d), snd (switchDatabase srv n d), rem)
             | _ \<Rightarrow> (Some (Errorf ''invalid statement %q'' [ArgString stmt]), d, rem))
        | Remaining \<Rightarrow> (None, d, rem @ [stmt]))
   \<and> (fst (switchDatabase srv dbName d) = None \<longrightarrow>
        snd (switchDatabase srv dbName d)
          = d\<lparr>calls := calls d @ [DbClose (db d), SqlOpen (baseDSN d @ '' dbname='' @ dbName)],
              db := baseDSN d @ '' dbname='' @ dbName, databaseName := dbName\<rparr>)
   \<and> (Execute srv split wrap uf statement d = (r, d') \<longrightarrow>
        (\<exists>pre tx. calls d' = calls d @ pre @ tx
            \<and> (\<forall>c \<in> set pre. \<not> is_tx_call c) \<and> (\<forall>c \<in> set tx. is_tx_call c)))
   \<and> (Execute srv split wrap uf statement d = (None, d') \<longrightarrow>
        (\<exists>pre. (\<forall>c \<in> set pre. \<not> is_tx_call c)
          \<and> (if remaining_statements split statement = [] then calls d' = calls d @ pre
              else \<exists>h owner. owner \<noteq> []
                   \<and> scan_owner
                       (case srv (calls d @ pre @ [DbBeginTx h, TxQuery currentDatabaseOwnerQuery]) of
                          OwnerRows rows \<Rightarrow> rows | _ \<Rightarrow> []) [] = Inr owner
                   \<and> calls d' = calls d @ pre @
                       [DbBeginTx h, TxQuery currentDatabaseOwnerQuery,
                        TxExec (''SET LOCAL ROLE '' @ owner),
                        TxExec (Join (remaining_statements split statement) [CHR 0x0A]),
                        TxCommit, TxRollback])))"
  using Execute_f_bucket [of srv uf stmt0 d rem] switchDatabase_None [of srv dbName d]
        Execute_calls_shape [of srv split wrap uf statement d r d']
        Execute_None [of srv split wrap uf statement d d']
  by blast

lemma example_run:
  "Execute example_server example_split (\<lambda>s e. e) (\<lambda>s. [s]) example_script example_driver
   = (None,
      example_driver
        \<lparr>db := ''host=h dbname=app'', databaseName := ''app'',
         calls := [DbQuery ''host=h'' getDatabasesQuery,
                   DbExec ''host=h'' ''ALTER DATABASE app OWNER TO bob;'' [],
                   DbClose ''host=h'', SqlOpen ''host=h dbname=app'',
                   DbBeginTx ''host=h dbname=app'', TxQuery currentDatabaseOwnerQuery,
                   TxExec ''SET LOCAL ROLE alice'',
                   TxExec (''CREATE TABLE t(id INT);'' @ [CHR 0x0A] @ ''INSERT INTO t VALUES (1);''),
                   TxCommit, TxRollback]\<rparr>)"
  by code_simp

lemma example_remaining:
  "remaining_statements example_split example_script
   = [''CREATE TABLE t(id INT);'', ''INSERT INTO t VALUES (1);'']"
  by code_simp

lemma example_switch:
  "fst (switchDatabase example_server ''app'' example_driver) = None"
  by code_simp

theorem Execute_partitions_statements_witness:
  "Execute example_server example_split (\<lambda>s e. e) (\<lambda>s. [s]) example_script example_driver
   = (None,
      example_driver
        \<lparr>db := ''host=h dbname=app'', databaseName := ''app'',
         calls := [DbQuery ''host=h'' getDatabasesQuery,
                   DbExec ''host=h'' ''ALTER DATABASE app OWNER TO bob;'' [],
                   DbClose ''host=h'', SqlOpen ''host=h dbname=app'',
                   DbBeginTx ''host=h dbname=app'', TxQuery currentDatabaseOwnerQuery,
                   TxExec ''SET LOCAL ROLE alice'',
                   TxExec (''CREATE TABLE t(id INT);'' @ [CHR 0x0A] @ ''INSERT INTO t VALUES (1);''),
                   TxCommit, TxRollback]\<rparr>)
   \<and> remaining_statements example_split example_script
       = [''CREATE TABLE t(id INT);'', ''INSERT INTO t VALUES (1);'']
   \<and> fst (switchDatabase example_server ''app'' example_driver) = None
   \<and> databaseName (snd (switchDatabase example_server ''app'' example_driver)) = ''app''
   \<and> (\<exists>pre tx.
         [DbQuery ''host=h'' getDatabasesQuery,
          DbExec ''host=h'' ''ALTER DATABASE app OWNER TO bob;'' [],
          DbClose ''host=h'', SqlOpen ''host=h dbname=app'',
          DbBeginTx ''host=h dbname=app'', TxQuery currentDatabaseOwnerQuery,
          TxExec ''SET LOCAL ROLE alice'',
          TxExec (''CREATE TABLE t(id INT);'' @ [CHR 0x0A] @ ''INSERT INTO t VALUES (1);''),
          TxCommit, TxRollback] = pre @ tx
         \<and> list_all (\<lambda>c. \<not> is_tx_call c) pre \<and> list_all is_tx_call tx)"
proof -
  note t = Execute_partitions_statements
      [of example_server "\<lambda>s. [s]" "[]" example_driver "[]" "''app''" example_split
          "\<lambda>s e. e" example_script None
          "example_driver
        \<lparr>db := ''host=h dbname=app'', databaseName := ''app'',
         calls := [DbQuery ''host=h'' getDatabasesQuery,
                   DbExec ''host=h'' ''ALTER DATABASE app OWNER TO bob;'' [],
                   DbClose ''host=h'', SqlOpen ''host=h dbname=app'',
                   DbBeginTx ''host=h dbname=app'', TxQuery currentDatabaseOwnerQuery,
                   TxExec ''SET LOCAL ROLE alice'',
                   TxExec (''CREATE TABLE t(id INT);'' @ [CHR 0x0A] @ ''INSERT INTO t VALUES (1);''),
                   TxCommit, TxRollback]\<rparr>"]
  have c: "calls example_driver = []" by (simp add: example_driver_def)
  from t example_switch have 1: "databaseName (snd (switchDatabase example_server ''app'' example_driver)) = ''app''"
    by simp
  from t example_run c have 2: "\<exists>pre tx.
         [DbQuery ''host=h'' getDatabasesQuery,
          DbExec ''host=h'' ''ALTER DATABASE app OWNER TO bob;'' [],
          DbClose ''host=h'', SqlOpen ''host=h dbname=app'',
          DbBeginTx ''host=h dbname=app'', TxQuery currentDatabaseOwnerQuery,
          TxExec ''SET LOCAL ROLE alice'',
          TxExec (''CREATE TABLE t(id INT);'' @ [CHR 0x0A] @ ''INSERT INTO t VALUES (1);''),
          TxCommit, TxRollback] = pre @ tx
         \<and> list_all (\<lambda>c. \<not> is_tx_call c) pre \<and> list_all is_tx_call tx"
    by (simp add: list_all_iff)
  from example_run example_remaining example_switch 1 2 show ?thesis by blast
qed


subsection \<open>The name read from a \<open>CREATE DATABASE\<close> statement\<close>

lemma ascii_fields_nospace:
  "\<forall>c \<in> set s. \<not> asciiSpace c \<Longrightarrow>
     ascii_fields cur s = (if cur @ s = [] then [] else [cur @ s])"
  by (induction s arbitrary: cur) auto

lemma TrimRight_keep:
  "\<forall>c \<in> set t. c \<in> set cutset \<Longrightarrow> s = [] \<or> last s \<notin> set cutset \<Longrightarrow>
     TrimRight (s @ t) cutset = s"
  by (cases s rule: rev_cases) (auto simp: TrimRight_def dropWhile_append)

lemma TrimLeft_keep:
  "\<forall>c \<in> set t. c \<in> set cutset \<Longrightarrow> s = [] \<or> hd s \<notin> set cutset \<Longrightarrow>
     TrimLeft (t @ s) cutset = s"
  by (cases s) (auto simp: TrimLeft_def dropWhile_append)

lemma TrimPrefix_keep: "TrimPrefix (pre @ s) pre = s"
  by (simp add: TrimPrefix_def HasPrefix_def)

text \<open>For a name of ASCII bytes without white space, double quote or semicolon, the
  function returns the name, whether the statement writes it bare or between double
  quotes.\<close>

lemma getDatabaseInCreateDatabaseStatement_plain:
  assumes "n \<noteq> []"
    and "\<forall>c \<in> set n. (of_char c :: nat) < 128 \<and> \<not> asciiSpace c \<and> c \<noteq> DQ \<and> c \<noteq> CHR '';''"
  shows "getDatabaseInCreateDatabaseStatement unicode_fields (''CREATE DATABASE '' @ n @ '';'')
           = Inr n"
proof -
  from assms have l: "last n \<noteq> CHR '';''" "hd n \<noteq> DQ" "last n \<noteq> DQ" by auto
  have 1: "TrimRight (''CREATE DATABASE '' @ n @ '';'') '';'' = ''CREATE DATABASE '' @ n"
    using TrimRight_keep [of "'';''" "'';''" "''CREATE DATABASE '' @ n"] assms(1) l by simp
  have 2: "TrimPrefix (''CREATE DATABASE '' @ n) ''CREATE DATABASE'' = '' '' @ n"
    using TrimPrefix_keep [of "''CREATE DATABASE''" "'' '' @ n"] by simp
  have a: "isASCII ('' '' @ n)"
    using assms(2) by (simp add: isASCII_def list_all_iff)
  have 3: "Fields unicode_fields ('' '' @ n) = [n]"
    using a assms ascii_fields_nospace [of n "[]"] by (simp add: Fields_def asciiSpace_def)
  have 4: "TrimLeft n [DQ] = n" using TrimLeft_keep [of "[]" "[DQ]" n] l by simp
  have 5: "TrimRight n [DQ] = n" using TrimRight_keep [of "[]" "[DQ]" n] l by simp
  show ?thesis
    unfolding getDatabaseInCreateDatabaseStatement_def Let_def 1 2 3 by (simp add: 4 5)
qed

lemma getDatabaseInCreateDatabaseStatement_quoted:
  assumes "n \<noteq> []"
    and "\<forall>c \<in> set n. (of_char c :: nat) < 128 \<and> \<not> asciiSpace c \<and> c \<noteq> DQ"
  shows "getDatabaseInCreateDatabaseStatement unicode_fields
           (''CREATE DATABASE '' @ [DQ] @ n @ [DQ] @ '';'') = Inr n"
proof -
  from assms have l: "hd n \<noteq> DQ" "last n \<noteq> DQ" by auto
  have 1: "TrimRight (''CREATE DATABASE '' @ [DQ] @ n @ [DQ] @ '';'') '';''
             = ''CREATE DATABASE '' @ [DQ] @ n @ [DQ]"
    using TrimRight_keep [of "'';''" "'';''" "''CREATE DATABASE '' @ [DQ] @ n @ [DQ]"] by simp
  have 2: "TrimPrefix (''CREATE DATABASE '' @ [DQ] @ n @ [DQ]) ''CREATE DATABASE''
             = '' '' @ [DQ] @ n @ [DQ]"
    using TrimPrefix_keep [of "''CREATE DATABASE''" "'' '' @ [DQ] @ n @ [DQ]"] by simp
  have a: "isASCII ('' '' @ [DQ] @ n @ [DQ])"
    using assms(2) by (simp add: isASCII_def list_all_iff)
  have 3: "Fields unicode_fields ('' '' @ [DQ] @ n @ [DQ]) = [[DQ] @ n @ [DQ]]"
    using a assms ascii_fields_nospace [of "[DQ] @ n @ [DQ]" "[]"]
    by (simp add: Fields_def asciiSpace_def)
  have 4: "TrimLeft (DQ # n @ [DQ]) [DQ] = n @ [DQ]"
    using TrimLeft_keep [of "[DQ]" "[DQ]" "n @ [DQ]"] l assms(1) by simp
  have 5: "TrimRight (n @ [DQ]) [DQ] = n" using TrimRight_keep [of "[DQ]" "[DQ]" n] l by simp
  show ?thesis
    unfolding getDatabaseInCreateDatabaseStatement_def Let_def 1 2 3 by (simp add: 4 5)
qed

text \<open>C1. The claim fails on the code for a database whose quoted name holds white space.
  The statement \<open>CREATE DATABASE "a b";\<close> names the database \<open>a b\<close>. The function cuts the
  text after \<open>CREATE DATABASE\<close> at white space before it trims the double quotes, and reads
  the name \<open>a\<close>. On a server where the database \<open>a b\<close> exists, \<open>Execute\<close> does not find \<open>a\<close>
  among the databases, sends the statement and returns the error of the server: the
  statement is not a no-op. On a server where \<open>a\<close> exists and \<open>a b\<close> does not, \<open>Execute\<close>
  sends nothing and returns no error: the database \<open>a b\<close> is not created.\<close>

theorem Execute_create_database_name_with_blank:
  "example_split (''CREATE DATABASE '' @ [DQ] @ ''a b'' @ [DQ] @ '';'')
     = [''CREATE DATABASE '' @ [DQ] @ ''a b'' @ [DQ] @ '';'']
   \<and> getDatabaseInCreateDatabaseStatement (\<lambda>s. [s])
         (''CREATE DATABASE '' @ [DQ] @ ''a b'' @ [DQ] @ '';'') = Inr ''a''
   \<and> fst (getDatabases spaced_server example_driver)
       = Inr [\<lparr>name = ''postgres'', encoding = ''UTF8'', collate = ''C''\<rparr>,
              \<lparr>name = ''a b'', encoding = ''UTF8'', collate = ''C''\<rparr>]
   \<and> Execute spaced_server example_split (\<lambda>s e. e) (\<lambda>s. [s])
         (''CREATE DATABASE '' @ [DQ] @ ''a b'' @ [DQ] @ '';'') example_driver
       = (Some (Error (''database '' @ [DQ] @ ''a b'' @ [DQ] @ '' already exists'')),
          example_driver
            \<lparr>calls := [DbQuery ''host=h'' getDatabasesQuery,
                       DbExec ''host=h'' (''CREATE DATABASE '' @ [DQ] @ ''a b'' @ [DQ] @ '';'') []]\<rparr>)
   \<and> fst (getDatabases short_server example_driver)
       = Inr [\<lparr>name = ''postgres'', encoding = ''UTF8'', collate = ''C''\<rparr>,
              \<lparr>name = ''a'', encoding = ''UTF8'', collate = ''C''\<rparr>]
   \<and> Execute short_server example_split (\<lambda>s e. e) (\<lambda>s. [s])
         (''CREATE DATABASE '' @ [DQ] @ ''a b'' @ [DQ] @ '';'') example_driver
       = (None, example_driver\<lparr>calls := [DbQuery ''host=h'' getDatabasesQuery]\<rparr>)"
  by code_simp







section \<open>Properties of the migration schema setup\<close>

text \<open>C9. Whenever \<open>NeedsSetupMigration\<close> returns an error, \<open>SetupMigrationIfNeeded\<close>
  returns no error, and the driver is as \<open>NeedsSetupMigration\<close> left it: no call is made
  after it, so neither the \<open>bytebase\<close> database nor the migration schema is created.\<close>

theorem SetupMigrationIfNeeded_swallows_error:
  assumes "NeedsSetupMigration srv NeedsSetupMigrationSchema driver = (Inl err, driver')"
  shows "SetupMigrationIfNeeded srv NeedsSetupMigrationSchema FormatErrorWithQuery migrationSchema driver
           = (None, driver')"
  using assms by (simp add: SetupMigrationIfNeeded_def)

lemma refusing_needs:
  "NeedsSetupMigration refusing_server (\<lambda>h q tr. (Inr False, tr)) example_driver
   = (Inl (Error ''connection refused''),
      example_driver\<lparr>calls := [DbQuery ''host=h'' getDatabasesQuery]\<rparr>)"
  by code_simp

theorem SetupMigrationIfNeeded_swallows_error_witness:
  "SetupMigrationIfNeeded refusing_server (\<lambda>h q tr. (Inr False, tr)) (\<lambda>e q. e) ''CREATE TABLE migration_history ();'' example_driver
   = (None, example_driver\<lparr>calls := [DbQuery ''host=h'' getDatabasesQuery]\<rparr>)"
  by (rule SetupMigrationIfNeeded_swallows_error [OF refusing_needs])


section \<open>Properties of \<open>FindMigrationHistoryList\<close>\<close>


lemma updateMigrationHistoryStorageVersion_strict:
  "strictUseDb d \<Longrightarrow> updateMigrationHistoryStorageVersion srv pre d = Panic"
  by (simp add: updateMigrationHistoryStorageVersion_def)






lemma FindMigrationHistoryList_strict_panics:
  assumes "history_query H hfind = Inr (query, params)"
      and "util_FindMigrationHistoryList H query params
             (if strictUseDb driver then strictDatabase driver else BytebaseDatabase)
             hfind baseQuery driver = ((history, Some err), driver1)"
      and "Contains (Error_message (Sprintf H) err) ''invalid stored version''"
      and "\<not> isBytebaseDatabase driver1" and "strictUseDb driver1"
  shows "FindMigrationHistoryList srv H hfind driver = Panic"
  using assms
  by (simp add: FindMigrationHistoryList_def updateMigrationHistoryStorageVersion_strict)












section \<open>Properties of the GitLab webhook\<close>

lemma foldl_filter_skip:
  "(\<And>x s. \<not> P x \<Longrightarrow> f s x = s) \<Longrightarrow> foldl f s (filter P xs) = foldl f s xs"
  by (induction xs arbitrary: s) auto

lemma foldl_added_paths:
  "foldl (\<lambda>st commit. foldl (\<lambda>st added. g commit added st) st (AddedList commit)) st commits
   = foldl (\<lambda>st (commit, added). g commit added st) st
       (concat (map (\<lambda>commit. map (Pair commit) (AddedList commit)) commits))"
proof (induction commits arbitrary: st)
  case Nil
  then show ?case by simp
next
  case (Cons c cs)
  have "\<And>st. foldl (\<lambda>st (commit, added). g commit added st) st (map (Pair c) (AddedList c))
          = foldl (\<lambda>st added. g c added st) st (AddedList c)"
    by (simp add: foldl_map)
  with Cons show ?case by simp
qed

lemma webhook_added_skip:
  "\<not> passes_guard repository added \<Longrightarrow>
     webhook_added E repository pushEvent commit added st = st"
  by (cases st) (auto simp: webhook_added_def passes_guard_def)

lemma webhook_loops_processed:
  "webhook_loops E repository pushEvent st
   = foldl (\<lambda>st (commit, added). webhook_added E repository pushEvent commit added st) st
       (filter (\<lambda>(commit, added). passes_guard repository added) (added_paths pushEvent))"
proof -
  have "foldl (\<lambda>st (commit, added). webhook_added E repository pushEvent commit added st) st
       (filter (\<lambda>(commit, added). passes_guard repository added) (added_paths pushEvent))
     = foldl (\<lambda>st (commit, added). webhook_added E repository pushEvent commit added st) st
       (added_paths pushEvent)"
    by (rule foldl_filter_skip) (auto simp: webhook_added_skip)
  then show ?thesis
    by (simp add: webhook_loops_def added_paths_def foldl_added_paths)
qed

lemma webhook_added_cases:
  "webhook_added E repository pushEvent commit added (msgs, issues) = (msgs, issues)
   \<or> (\<exists>mi b database issue issueCreate.
         passes_guard repository added
       \<and> ParseMigrationInfo E (Base added) = Inr mi
       \<and> gitlab_GET E (VCS_InstanceURL repository)
            (''projects/'' @ ExternalId repository @ ''/repository/files/''
             @ QueryEscape E added @ ''/raw?ref='' @ Commit_ID commit)
            (VCS_AccessToken repository) = Inr (Inr b)
       \<and> ComposeDatabaseByFind E (ProjectId repository) (mi_Database mi) = Inr database
       \<and> CreateIssue E issues issueCreate (SYSTEM_BOT_ID E) = Inr issue
       \<and> issue_Name issueCreate = Title commit
       \<and> task_Statement (hd (TaskList (hd (StageList (Pipeline issueCreate))))) = b
       \<and> webhook_added E repository pushEvent commit added (msgs, issues)
           = (msgs @ [''Created issue '' @ [CHR 0x27] @ Name issue @ [CHR 0x27]
                      @ '' on adding '' @ Base added],
              issues @ [issueCreate]))"
  by (auto simp: webhook_added_def passes_guard_def Let_def split: sum.splits)


lemma webhook_added_grows:
  "\<exists>ms new. webhook_added E repository pushEvent commit added (msgs, issues)
              = (msgs @ ms, issues @ new)
          \<and> length ms = length new \<and> length new \<le> 1"
  using webhook_added_cases [of E repository pushEvent commit added msgs issues]
  by (elim disjE exE conjE) (force intro: exI [of _ "[]"])+

lemma foldl_webhook_added_grows:
  "\<exists>ms new. foldl (\<lambda>st (commit, added). webhook_added E repository pushEvent commit added st)
                  (msgs, issues) files
              = (msgs @ ms, issues @ new)
          \<and> length ms = length new \<and> length new \<le> length files"
proof (induction files arbitrary: msgs issues)
  case Nil
  then show ?case by simp
next
  case (Cons f files)
  obtain commit added where f: "f = (commit, added)" by (cases f)
  from webhook_added_grows [of E repository pushEvent commit added msgs issues]
  obtain ms1 new1 where 1:
    "webhook_added E repository pushEvent commit added (msgs, issues) = (msgs @ ms1, issues @ new1)"
    "length ms1 = length new1" "length new1 \<le> 1"
    by blast
  from Cons.IH [of "msgs @ ms1" "issues @ new1"]
  obtain ms2 new2 where 2:
    "foldl (\<lambda>st (commit, added). webhook_added E repository pushEvent commit added st)
           (msgs @ ms1, issues @ new1) files
       = ((msgs @ ms1) @ ms2, (issues @ new1) @ new2)"
    "length ms2 = length new2" "length new2 \<le> length files"
    by blast
  from f 1 2 show ?case
    by (intro exI [of _ "ms1 @ ms2"] exI [of _ "new1 @ new2"]) simp
qed

text \<open>C7, as amended. A request whose body decodes to an event gets status 400, and no
  issue is created, whenever the kind of the event is not a push; and, when the kind is a
  push, the repository of the endpoint is found and its relationships are composed,
  whenever the \<open>X-Gitlab-Token\<close> header differs from the secret token of the repository or
  the project id of the event, in decimal, differs from the external id of the
  repository.\<close>

theorem webhook_rejects_with_400:
  "(req_body req = Inr b \<and> Unmarshal E b = Inr pushEvent \<and> ObjectKind pushEvent \<noteq> WebhookPush E
      \<longrightarrow> status_of (fst (webhook_gitlab E req issues)) = StatusBadRequest
          \<and> snd (webhook_gitlab E req issues) = issues)
   \<and> (req_body req = Inr b \<and> Unmarshal E b = Inr pushEvent \<and> ObjectKind pushEvent = WebhookPush E
      \<and> FindRepository E (param_id req) = Inr found
      \<and> ComposeRepositoryRelationship E found = Inr repository
      \<and> (X_Gitlab_Token req \<noteq> SecretToken repository
          \<or> Itoa (Project_ID (Project pushEvent)) \<noteq> ExternalId repository)
      \<longrightarrow> status_of (fst (webhook_gitlab E req issues)) = StatusBadRequest
          \<and> snd (webhook_gitlab E req issues) = issues)"
  by (auto simp: webhook_gitlab_def Let_def)


lemma webhook_example_requests:
  "req_body \<lparr>req_body = Inr ''tag'', X_Gitlab_Token = ''wrong'', param_id = ''ep1''\<rparr> = Inr ''tag''"
  "Unmarshal example_hook_env ''tag'' = Inr (example_event\<lparr>ObjectKind := ''tag_push''\<rparr>)"
  "ObjectKind (example_event\<lparr>ObjectKind := ''tag_push''\<rparr>) \<noteq> WebhookPush example_hook_env"
  "req_body \<lparr>req_body = Inr ''push'', X_Gitlab_Token = ''wrong'', param_id = ''ep1''\<rparr> = Inr ''push''"
  "Unmarshal example_hook_env ''push'' = Inr example_event"
  "ObjectKind example_event = WebhookPush example_hook_env"
  "FindRepository example_hook_env
     (param_id \<lparr>req_body = Inr ''push'', X_Gitlab_Token = ''wrong'', param_id = ''ep1''\<rparr>)
     = Inr example_repository"
  "ComposeRepositoryRelationship example_hook_env example_repository = Inr example_repository"
  "X_Gitlab_Token \<lparr>req_body = Inr ''push'', X_Gitlab_Token = ''wrong'', param_id = ''ep1''\<rparr>
     \<noteq> SecretToken example_repository"
  by code_simp+

theorem webhook_rejects_with_400_witness:
  "status_of (fst (webhook_gitlab example_hook_env
       \<lparr>req_body = Inr ''tag'', X_Gitlab_Token = ''wrong'', param_id = ''ep1''\<rparr> []))
     = StatusBadRequest
   \<and> snd (webhook_gitlab example_hook_env
       \<lparr>req_body = Inr ''tag'', X_Gitlab_Token = ''wrong'', param_id = ''ep1''\<rparr> []) = []
   \<and> status_of (fst (webhook_gitlab example_hook_env
       \<lparr>req_body = Inr ''push'', X_Gitlab_Token = ''wrong'', param_id = ''ep1''\<rparr> []))
     = StatusBadRequest
   \<and> snd (webhook_gitlab example_hook_env
       \<lparr>req_body = Inr ''push'', X_Gitlab_Token = ''wrong'', param_id = ''ep1''\<rparr> []) = []"
proof -
  note t = webhook_rejects_with_400
      [of "\<lparr>req_body = Inr ''tag'', X_Gitlab_Token = ''wrong'', param_id = ''ep1''\<rparr>" "''tag''"
          example_hook_env "example_event\<lparr>ObjectKind := ''tag_push''\<rparr>" "[]"]
  note p = webhook_rejects_with_400
      [of "\<lparr>req_body = Inr ''push'', X_Gitlab_Token = ''wrong'', param_id = ''ep1''\<rparr>" "''push''"
          example_hook_env example_event "[]" example_repository example_repository]
  from t webhook_example_requests(1-3)
  have 1: "status_of (fst (webhook_gitlab example_hook_env
       \<lparr>req_body = Inr ''tag'', X_Gitlab_Token = ''wrong'', param_id = ''ep1''\<rparr> []))
     = StatusBadRequest
   \<and> snd (webhook_gitlab example_hook_env
       \<lparr>req_body = Inr ''tag'', X_Gitlab_Token = ''wrong'', param_id = ''ep1''\<rparr> []) = []"
    by blast
  from p webhook_example_requests(4-9)
  have 2: "status_of (fst (webhook_gitlab example_hook_env
       \<lparr>req_body = Inr ''push'', X_Gitlab_Token = ''wrong'', param_id = ''ep1''\<rparr> []))
     = StatusBadRequest
   \<and> snd (webhook_gitlab example_hook_env
       \<lparr>req_body = Inr ''push'', X_Gitlab_Token = ''wrong'', param_id = ''ep1''\<rparr> []) = []"
    by blast
  from 1 2 show ?thesis by blast
qed

text \<open>The claim as it was stated fails when the relationships of the repository cannot be
  composed: the repository is found, the header differs from its secret token, and the
  handler answers 500 before it compares them.\<close>

theorem webhook_token_mismatch_answered_500:
  "FindRepository broken_hook_env ''ep1'' = Inr example_repository
   \<and> ''wrong'' \<noteq> SecretToken example_repository
   \<and> webhook_gitlab broken_hook_env
       \<lparr>req_body = Inr ''push'', X_Gitlab_Token = ''wrong'', param_id = ''ep1''\<rparr> []
     = (HTTPError StatusInternalServerError ''Failed to fetch repository relationship: repo''
          (Some (Error ''no project'')), [])
   \<and> StatusInternalServerError \<noteq> StatusBadRequest"
  by code_simp

text \<open>The push pipeline. For a request that passes every check before the loops, the
  handler answers 200 with the created messages joined by line feeds. The loops handle
  exactly the added paths that pass the guard of the loop body, the ones whose text starts
  with the text of the base directory and whose extension is \<open>.sql\<close>, in the order of the
  commits and of their added paths. Each path leaves the messages and the
  issues as they are, or adds one issue and its one message; it adds them only when the
  file name is parsed, the file is fetched and read, the database is found and the issue is
  created. So there are as many messages as issues created, and at most as many as paths
  handled.\<close>

theorem webhook_push_creates_issues:
  assumes "authenticated_push E req pushEvent repository"
  shows "webhook_gitlab E req issues
           = (String StatusOK
                (Join (fst (webhook_loops E repository pushEvent ([], issues))) [CHR 0x0A]),
              snd (webhook_loops E repository pushEvent ([], issues)))
       \<and> webhook_loops E repository pushEvent ([], issues)
           = foldl (\<lambda>st (commit, added). webhook_added E repository pushEvent commit added st)
               ([], issues)
               (filter (\<lambda>(commit, added). passes_guard repository added)
                  (added_paths pushEvent))
       \<and> (\<exists>msgs new.
             webhook_loops E repository pushEvent ([], issues) = (msgs, issues @ new)
           \<and> length msgs = length new
           \<and> length new \<le> length (filter (\<lambda>(commit, added). passes_guard repository added)
                                       (added_paths pushEvent)))
       \<and> (webhook_added E repository pushEvent commit added (msgs0, issues0) = (msgs0, issues0)
           \<or> (\<exists>mi b database issue issueCreate.
                 passes_guard repository added
               \<and> ParseMigrationInfo E (Base added) = Inr mi
               \<and> gitlab_GET E (VCS_InstanceURL repository)
                    (''projects/'' @ ExternalId repository @ ''/repository/files/''
                     @ QueryEscape E added @ ''/raw?ref='' @ Commit_ID commit)
                    (VCS_AccessToken repository) = Inr (Inr b)
               \<and> ComposeDatabaseByFind E (ProjectId repository) (mi_Database mi) = Inr database
               \<and> CreateIssue E issues0 issueCreate (SYSTEM_BOT_ID E) = Inr issue
               \<and> issue_Name issueCreate = Title commit
               \<and> task_Statement (hd (TaskList (hd (StageList (Pipeline issueCreate))))) = b
               \<and> webhook_added E repository pushEvent commit added (msgs0, issues0)
                   = (msgs0 @ [''Created issue '' @ [CHR 0x27] @ Name issue @ [CHR 0x27]
                               @ '' on adding '' @ Base added],
                      issues0 @ [issueCreate])))"
proof -
  from assms have run: "webhook_gitlab E req issues
           = (String StatusOK
                (Join (fst (webhook_loops E repository pushEvent ([], issues))) [CHR 0x0A]),
              snd (webhook_loops E repository pushEvent ([], issues)))"
    by (auto simp: authenticated_push_def webhook_gitlab_def Let_def split: prod.splits)
  note loops = webhook_loops_processed [of E repository pushEvent "([], issues)"]
  from foldl_webhook_added_grows [of E repository pushEvent "[]" issues
         "filter (\<lambda>(commit, added). passes_guard repository added) (added_paths pushEvent)"]
  have count: "\<exists>msgs new.
             webhook_loops E repository pushEvent ([], issues) = (msgs, issues @ new)
           \<and> length msgs = length new
           \<and> length new \<le> length (filter (\<lambda>(commit, added). passes_guard repository added)
                                       (added_paths pushEvent))"
    unfolding loops by simp
  from run loops count webhook_added_cases [of E repository pushEvent commit added msgs0 issues0]
  show ?thesis by blast
qed


lemma webhook_example_authenticated:
  "authenticated_push example_hook_env
     \<lparr>req_body = Inr ''push'', X_Gitlab_Token = ''s3cret'', param_id = ''ep1''\<rparr>
     example_event example_repository"
proof -
  have "req_body \<lparr>req_body = Inr ''push'', X_Gitlab_Token = ''s3cret'', param_id = ''ep1''\<rparr> = Inr ''push''
      \<and> Unmarshal example_hook_env ''push'' = Inr example_event
      \<and> ObjectKind example_event = WebhookPush example_hook_env
      \<and> FindRepository example_hook_env
           (param_id \<lparr>req_body = Inr ''push'', X_Gitlab_Token = ''s3cret'', param_id = ''ep1''\<rparr>)
           = Inr example_repository
      \<and> ComposeRepositoryRelationship example_hook_env example_repository = Inr example_repository
      \<and> X_Gitlab_Token \<lparr>req_body = Inr ''push'', X_Gitlab_Token = ''s3cret'', param_id = ''ep1''\<rparr>
           = SecretToken example_repository
      \<and> Itoa (Project_ID (Project example_event)) = ExternalId example_repository"
    by code_simp
  then show ?thesis
    unfolding authenticated_push_def by blast
qed

lemma webhook_example_loops:
  "fst (webhook_loops example_hook_env example_repository example_event ([], []))
     = [''Created issue '' @ [CHR 0x27] @ ''Add column'' @ [CHR 0x27]
        @ '' on adding 0004__add_col.sql'']"
  "length (snd (webhook_loops example_hook_env example_repository example_event ([], []))) = 1"
  "filter (\<lambda>(commit, added). passes_guard example_repository added) (added_paths example_event)
     = [(example_commit, ''sql/0004__add_col.sql'')]"
  by code_simp+

theorem webhook_push_creates_issues_witness:
  "authenticated_push example_hook_env
     \<lparr>req_body = Inr ''push'', X_Gitlab_Token = ''s3cret'', param_id = ''ep1''\<rparr>
     example_event example_repository
   \<and> fst (webhook_gitlab example_hook_env
            \<lparr>req_body = Inr ''push'', X_Gitlab_Token = ''s3cret'', param_id = ''ep1''\<rparr> [])
       = String StatusOK
           (''Created issue '' @ [CHR 0x27] @ ''Add column'' @ [CHR 0x27]
            @ '' on adding 0004__add_col.sql'')
   \<and> length (snd (webhook_gitlab example_hook_env
            \<lparr>req_body = Inr ''push'', X_Gitlab_Token = ''s3cret'', param_id = ''ep1''\<rparr> [])) = 1"
  using webhook_push_creates_issues [OF webhook_example_authenticated, of "[]"]
        webhook_example_authenticated webhook_example_loops
  by simp


subsection \<open>Paths under the base directory\<close>

lemma TrimRight_decompose:
  "\<exists>t. s = TrimRight s cutset @ t \<and> (\<forall>c \<in> set t. c \<in> set cutset)"
proof -
  have "rev s = takeWhile (\<lambda>c. c \<in> set cutset) (rev s) @ dropWhile (\<lambda>c. c \<in> set cutset) (rev s)"
    by simp
  then have "s = rev (dropWhile (\<lambda>c. c \<in> set cutset) (rev s))
                 @ rev (takeWhile (\<lambda>c. c \<in> set cutset) (rev s))"
    by (metis rev_append rev_rev_ident)
  moreover have "\<forall>c \<in> set (rev (takeWhile (\<lambda>c. c \<in> set cutset) (rev s))). c \<in> set cutset"
    by (auto dest: set_takeWhileD)
  ultimately show ?thesis unfolding TrimRight_def by blast
qed

text \<open>When the base directory is empty or written with a trailing separator, a path that
  starts with its text lies under it.\<close>

lemma HasPrefix_lies_under:
  assumes "directory = [] \<or> last directory = CHR ''/''"
    and "HasPrefix path directory"
  shows "lies_under directory path"
proof (cases "TrimRight directory ''/'' = []")
  case True
  then show ?thesis by (simp add: lies_under_def)
next
  case False
  obtain t where t: "directory = TrimRight directory ''/'' @ t" "\<forall>c \<in> set t. c \<in> set ''/''"
    using TrimRight_decompose by blast
  from False t(1) have ne: "directory \<noteq> []" by auto
  have "t \<noteq> []"
  proof
    assume "t = []"
    with t(1) have e: "TrimRight directory ''/'' = directory" by simp
    from ne assms(1) have sep: "last directory = CHR ''/''" by simp
    have "TrimRight directory ''/'' \<noteq> directory"
    proof (cases directory rule: rev_cases)
      case Nil
      with ne show ?thesis by simp
    next
      case (snoc ys y)
      with sep have "TrimRight directory ''/'' = TrimRight ys ''/''"
        by (simp add: TrimRight_def)
      moreover have "length (TrimRight ys ''/'') \<le> length ys"
        using length_dropWhile_le [of "\<lambda>c. c \<in> set ''/''" "rev ys"] by (simp add: TrimRight_def)
      ultimately show ?thesis using snoc by auto
    qed
    with e show False by simp
  qed
  with t(2) obtain t' where "t = CHR ''/'' # t'" by (cases t) auto
  with t(1) have "prefix (TrimRight directory ''/'' @ ''/'') directory"
    by (metis append.assoc append_Cons append_Nil prefixI)
  with assms(2) have "prefix (TrimRight directory ''/'' @ ''/'') path"
    unfolding HasPrefix_def by (rule prefix_order.trans [rotated])
  then show ?thesis
    by (simp add: lies_under_def HasPrefix_def Let_def)
qed

text \<open>C8. The claim fails on the code for a base directory written without a trailing
  separator. The base directory of the repository is \<open>sql\<close>, and an authenticated push adds
  \<open>sqlx/0001__a.sql\<close>, which does not lie under \<open>sql\<close>. The guard compares texts: the path
  starts with \<open>sql\<close>, so the file is processed, one issue is created for it, and the answer
  is 200 with the line of that issue.\<close>

theorem webhook_processes_path_outside_base_directory:
  "BaseDirectory example_repository = ''sql''
   \<and> AddedList (hd (CommitList stray_event)) = [''sqlx/0001__a.sql'']
   \<and> \<not> lies_under (BaseDirectory example_repository) ''sqlx/0001__a.sql''
   \<and> authenticated_push stray_hook_env
         \<lparr>req_body = Inr ''push'', X_Gitlab_Token = ''s3cret'', param_id = ''ep1''\<rparr>
         stray_event example_repository
   \<and> fst (webhook_gitlab stray_hook_env
            \<lparr>req_body = Inr ''push'', X_Gitlab_Token = ''s3cret'', param_id = ''ep1''\<rparr> [])
       = String StatusOK
           (''Created issue '' @ [CHR 0x27] @ ''Add column'' @ [CHR 0x27]
            @ '' on adding 0001__a.sql'')
   \<and> map (\<lambda>issue. map_option (\<lambda>e. fc_Added (FileCommit e))
                      (task_VCSPushEvent (hd (TaskList (hd (StageList (Pipeline issue)))))))
         (snd (webhook_gitlab stray_hook_env
            \<lparr>req_body = Inr ''push'', X_Gitlab_Token = ''s3cret'', param_id = ''ep1''\<rparr> []))
       = [Some ''sqlx/0001__a.sql'']"
proof -
  have 1: "BaseDirectory example_repository = ''sql''
   \<and> AddedList (hd (CommitList stray_event)) = [''sqlx/0001__a.sql'']
   \<and> \<not> lies_under (BaseDirectory example_repository) ''sqlx/0001__a.sql''"
    by code_simp
  have 2: "req_body \<lparr>req_body = Inr ''push'', X_Gitlab_Token = ''s3cret'', param_id = ''ep1''\<rparr>
             = Inr ''push''
      \<and> Unmarshal stray_hook_env ''push'' = Inr stray_event
      \<and> ObjectKind stray_event = WebhookPush stray_hook_env
      \<and> FindRepository stray_hook_env
           (param_id \<lparr>req_body = Inr ''push'', X_Gitlab_Token = ''s3cret'', param_id = ''ep1''\<rparr>)
           = Inr example_repository
      \<and> ComposeRepositoryRelationship stray_hook_env example_repository = Inr example_repository
      \<and> X_Gitlab_Token \<lparr>req_body = Inr ''push'', X_Gitlab_Token = ''s3cret'', param_id = ''ep1''\<rparr>
           = SecretToken example_repository
      \<and> Itoa (Project_ID (Project stray_event)) = ExternalId example_repository"
    by code_simp
  then have 3: "authenticated_push stray_hook_env
         \<lparr>req_body = Inr ''push'', X_Gitlab_Token = ''s3cret'', param_id = ''ep1''\<rparr>
         stray_event example_repository"
    unfolding authenticated_push_def by blast
  have 4: "fst (webhook_gitlab stray_hook_env
            \<lparr>req_body = Inr ''push'', X_Gitlab_Token = ''s3cret'', param_id = ''ep1''\<rparr> [])
       = String StatusOK
           (''Created issue '' @ [CHR 0x27] @ ''Add column'' @ [CHR 0x27]
            @ '' on adding 0001__a.sql'')
   \<and> map (\<lambda>issue. map_option (\<lambda>e. fc_Added (FileCommit e))
                      (task_VCSPushEvent (hd (TaskList (hd (StageList (Pipeline issue)))))))
         (snd (webhook_gitlab stray_hook_env
            \<lparr>req_body = Inr ''push'', X_Gitlab_Token = ''s3cret'', param_id = ''ep1''\<rparr> []))
       = [Some ''sqlx/0001__a.sql'']"
    by code_simp
  from 1 3 4 show ?thesis by blast
qed
section \<open>Properties of the inbox summary\<close>

text \<open>C10. Whatever the principal and the state of the store, a summary that
  \<open>FindInboxSummary\<close> returns has \<open>HasUnreadError\<close> only together with \<open>HasUnread\<close>;
  \<open>HasUnread\<close> says whether the receiver has an UNREAD row; and when there is none,
  \<open>HasUnreadError\<close> is false and the first query is the only one sent.\<close>

theorem FindInboxSummary_error_implies_unread:
  assumes "FindInboxSummary FormatError store p = (Inr s, qs)"
  shows "(HasUnreadError s \<longrightarrow> HasUnread s)
       \<and> \<not> (\<not> HasUnread s \<and> HasUnreadError s)
       \<and> HasUnread s = (\<exists>r \<in> set (inbox store). receiver_id r = p \<and> status r = ''UNREAD'')
       \<and> (\<not> (\<exists>r \<in> set (inbox store). receiver_id r = p \<and> status r = ''UNREAD'')
            \<longrightarrow> \<not> HasUnreadError s \<and> qs = [ExistsUnread p])"
  using assms
  by (auto simp: FindInboxSummary_def eval_inbox_query_def list_ex_iff Let_def
           split: option.splits if_splits)

theorem FindInboxSummary_error_implies_unread_witness:
  "FindInboxSummary id
     \<lparr>inbox = [\<lparr>receiver_id = 7, status = ''READ'', level = ''ERROR''\<rparr>],
      begin_tx_err = None, query_err = (\<lambda>_. None), scan_err = (\<lambda>_. None)\<rparr> 7
   = (Inr \<lparr>HasUnread = False, HasUnreadError = False\<rparr>, [ExistsUnread 7])
   \<and> \<not> HasUnreadError \<lparr>HasUnread = False, HasUnreadError = False\<rparr>"
proof -
  have run: "FindInboxSummary id
     \<lparr>inbox = [\<lparr>receiver_id = 7, status = ''READ'', level = ''ERROR''\<rparr>],
      begin_tx_err = None, query_err = (\<lambda>_. None), scan_err = (\<lambda>_. None)\<rparr> 7
   = (Inr \<lparr>HasUnread = False, HasUnreadError = False\<rparr>, [ExistsUnread 7])"
    by (simp add: FindInboxSummary_def eval_inbox_query_def)
  from FindInboxSummary_error_implies_unread [OF run] run show ?thesis by simp
qed

end
